theory Spec2Isabelle
  imports Main "HOL-Library.Sublist"
begin

section \<open>Python values\<close>

text \<open>
  A Python \<open>str\<close> is a sequence of Unicode code points; \<open>len\<close> counts code points and
  slicing cuts between them. A string is therefore modelled as a list of code points
  (natural numbers), and a literal of the source is written \<open>lit ''...''\<close>.
\<close>

type_synonym str = "nat list"

definition lit :: "string \<Rightarrow> str" where
  "lit s = map of_char s"

text \<open>
  \<open>str.strip()\<close> without argument removes the characters for which \<open>str.isspace\<close>
  holds: the code points of category Zs or of bidirectional class WS, B or S.
\<close>

definition py_isspace :: "nat \<Rightarrow> bool" where
  "py_isspace c \<longleftrightarrow>
     (9 \<le> c \<and> c \<le> 13) \<or> (28 \<le> c \<and> c \<le> 32) \<or> c = 133 \<or> c = 160 \<or> c = 5760 \<or>
     (8192 \<le> c \<and> c \<le> 8202) \<or> c = 8232 \<or> c = 8233 \<or> c = 8239 \<or> c = 8287 \<or>
     c = 12288"

definition strip_with :: "(nat \<Rightarrow> bool) \<Rightarrow> str \<Rightarrow> str" where
  "strip_with P s = rev (dropWhile P (rev (dropWhile P s)))"

definition strip :: "str \<Rightarrow> str" where
  "strip s = strip_with py_isspace s"

text \<open>\<open>s.strip(chars)\<close> removes leading and trailing characters that occur in \<open>chars\<close>.\<close>

definition strip_chars :: "str \<Rightarrow> str \<Rightarrow> str" where
  "strip_chars chars s = strip_with (\<lambda>c. c \<in> set chars) s"

text \<open>
  Exceptions. \<open>error\<close> stands for the exceptions that are not an \<open>HTTPException\<close>; its
  field is the text \<open>str(e)\<close>. \<open>Exception m\<close> also stands for the exceptions of the
  libraries (the database driver, the API client), which the source only ever catches
  as \<open>Exception\<close>.
\<close>

datatype error = ValueError str | Exception str

fun str_error :: "error \<Rightarrow> str" where
  "str_error (ValueError m) = m"
| "str_error (Exception m) = m"

datatype exn = HTTPException (status_code: nat) (detail: str) | Error error

type_synonym datetime = nat

section \<open>The state of a module\<close>

text \<open>
  Every module of the source holds a database collection (or, for temporary chat, a
  dictionary) and its own \<open>OpenAIService\<close> object. The model passes them explicitly. The
  field \<open>calls\<close> is a ghost log of the requests sent to the database and to the external
  API, in the order they are sent; it is how a retry would be seen.
\<close>

datatype call = FindOne | InsertOne | UpdateOne | DeleteOne | ChatCompletion | Transcription

record OpenAIService =
  OPENAI_API_KEY :: str
  async_initialized :: bool

record 'c state =
  store :: 'c
  service :: OpenAIService
  calls :: "call list"

definition logged :: "call \<Rightarrow> 'c state \<Rightarrow> 'c state" where
  "logged c st = st\<lparr>calls := calls st @ [c]\<rparr>"

subsection \<open>The collection of a document database\<close>

text \<open>
  A collection is the list of its documents in insertion order. \<open>find_one\<close>,
  \<open>update_one\<close> and \<open>delete_one\<close> act on the first document that matches the filter;
  with \<open>upsert=True\<close>, \<open>update_one\<close> inserts a document when none matches. A call of the
  driver may raise instead: the handlers take, for each call they make, a fault
  (\<open>Some e\<close>: the call raises \<open>e\<close> and leaves the collection as it is).
\<close>

definition find_one :: "('d \<Rightarrow> bool) \<Rightarrow> 'd list \<Rightarrow> 'd option" where
  "find_one flt coll = List.find flt coll"

definition insert_one :: "'d \<Rightarrow> 'd list \<Rightarrow> 'd list" where
  "insert_one doc coll = coll @ [doc]"

fun update_one :: "('d \<Rightarrow> bool) \<Rightarrow> ('d \<Rightarrow> 'd) \<Rightarrow> 'd list \<Rightarrow> 'd list" where
  "update_one flt upd [] = []"
| "update_one flt upd (d # coll) =
     (if flt d then upd d # coll else d # update_one flt upd coll)"

definition update_one_upsert :: "('d \<Rightarrow> bool) \<Rightarrow> ('d \<Rightarrow> 'd) \<Rightarrow> 'd \<Rightarrow> 'd list \<Rightarrow> 'd list" where
  "update_one_upsert flt upd new coll =
     (case find_one flt coll of
        None \<Rightarrow> insert_one new coll
      | Some _ \<Rightarrow> update_one flt upd coll)"

text \<open>\<open>delete_one\<close> returns \<open>deleted_count\<close> and the collection left.\<close>

fun delete_one :: "('d \<Rightarrow> bool) \<Rightarrow> 'd list \<Rightarrow> nat \<times> 'd list" where
  "delete_one flt [] = (0, [])"
| "delete_one flt (d # coll) =
     (if flt d then (1, coll)
      else (case delete_one flt coll of (n, coll') \<Rightarrow> (n, d # coll')))"

text \<open>
  The handlers of the routes end in
  \<open>except HTTPException: raise\<close> / \<open>except Exception as e: raise HTTPException(500, prefix + str(e))\<close>.
\<close>

definition reraise :: "str \<Rightarrow> exn \<Rightarrow> exn" where
  "reraise pre x =
     (case x of
        HTTPException c d \<Rightarrow> HTTPException c d
      | Error e \<Rightarrow> HTTPException 500 (pre @ str_error e))"

section \<open>services/openai\_service.py\<close>

text \<open>
  The reply of the external API to one request is an input of the model. For a chat
  completion it is \<open>Inl m\<close> when the call (or indexing \<open>choices[0]\<close> of its response) raises
  an exception with text \<open>m\<close>, and \<open>Inr content\<close> when the response arrives, where
  \<open>content\<close> is \<open>choices[0].message.content\<close>: the client declares it optional, so it is
  \<open>Some c\<close> or \<open>None\<close>. For a transcription it is \<open>Inl m\<close> or the text of the transcript.
\<close>

type_synonym api_reply = "str + str option"

type_synonym transcript_reply = "str + str"

definition api_key_missing :: str where
  "api_key_missing =
     lit ''OPENAI_API_KEY is not set. Please set it in your .env file or environment variables.''
     @ [10] @ lit ''Get your API key from: https://platform.openai.com/api-keys''"

definition ensure_async_initialized :: "OpenAIService \<Rightarrow> error + OpenAIService" where
  "ensure_async_initialized svc =
     (if \<not> async_initialized svc then
        (if OPENAI_API_KEY svc = [] then Inl (ValueError api_key_missing)
         else Inr (svc\<lparr>async_initialized := True\<rparr>))
      else Inr svc)"

text \<open>\<open>chat_completion\<close> returns the content as it is, \<open>None\<close> included (line 144).\<close>

definition chat_completion ::
  "'c state \<Rightarrow> api_reply \<Rightarrow> (error + str option) \<times> 'c state" where
  "chat_completion st reply =
     (case ensure_async_initialized (service st) of
        Inl e \<Rightarrow> (Inl e, st)
      | Inr svc \<Rightarrow>
          (let st = logged ChatCompletion (st\<lparr>service := svc\<rparr>)
           in case reply of
                Inl m \<Rightarrow> (Inl (Exception (lit ''OpenAI API Error: '' @ m)), st)
              | Inr content \<Rightarrow> (Inr content, st)))"

text \<open>
  In \<open>generate_title\<close> the content is stripped inside the \<open>try\<close>: on \<open>None\<close> that raises, and
  the \<open>except\<close> branch answers as for any other exception.
\<close>

definition generate_title :: "'c state \<Rightarrow> str \<Rightarrow> api_reply \<Rightarrow> (error + str) \<times> 'c state" where
  "generate_title st first_message reply =
     (case ensure_async_initialized (service st) of
        Inl e \<Rightarrow> (Inl e, st)
      | Inr svc \<Rightarrow>
          (let st = st\<lparr>service := svc\<rparr>
           in if length first_message \<le> 40 then (Inr (strip first_message), st)
              else
                (let st = logged ChatCompletion st
                 in case reply of
                      Inl m \<Rightarrow>
                        (Inr (strip (take 40 first_message)
                              @ (if length first_message > 40 then lit ''...'' else [])), st)
                    | Inr None \<Rightarrow>
                        (Inr (strip (take 40 first_message)
                              @ (if length first_message > 40 then lit ''...'' else [])), st)
                    | Inr (Some content) \<Rightarrow>
                        (let title = strip content;
                             title = strip (strip_chars (lit [CHR 0x27])
                                             (strip_chars (lit [CHR 0x22]) title));
                             title = (if length title > 50 then take 47 title @ lit ''...''
                                      else title)
                         in (Inr title, st)))))"

definition transcribe_audio :: "'c state \<Rightarrow> transcript_reply \<Rightarrow> (error + str) \<times> 'c state" where
  "transcribe_audio st reply =
     (case ensure_async_initialized (service st) of
        Inl e \<Rightarrow> (Inl e, st)
      | Inr svc \<Rightarrow>
          (let st = logged Transcription (st\<lparr>service := svc\<rparr>)
           in case reply of
                Inl m \<Rightarrow> (Inl (Exception (lit ''Audio Transcription Error: '' @ m)), st)
              | Inr transcript \<Rightarrow> (Inr transcript, st)))"

section \<open>models/responses.py (chat models)\<close>

datatype content_type = text_type | image_url_type

record MessageContent =
  mc_type :: content_type
  mc_text :: "str option"
  mc_image_url :: "str option"

datatype role = user | assistant | system

text \<open>\<open>content: str | List[MessageContent]\<close>\<close>

datatype content = Str str | Parts "MessageContent list"

record Message =
  role :: role
  content :: content
  timestamp :: datetime

text \<open>
  The title is declared \<open>Optional[str]\<close> with the default \<open>"New Chat"\<close>; the source never
  assigns \<open>None\<close> to it, and the model keeps it a string.
\<close>

record ChatSession =
  session_id :: str
  user_id :: str
  title :: str
  messages :: "Message list"
  created_at :: datetime
  updated_at :: datetime

text \<open>The response models, with their fields in the order of the source.\<close>

datatype SessionCreateResponse =
  SessionCreateResponse (* session_id *) str (* user_id *) str (* title *) str
    (* message *) str (* created_at *) datetime

datatype ChatResponse =
  ChatResponse (* session_id *) str (* title *) str (* message *) str (* timestamp *) datetime

datatype SessionHistoryResponse =
  SessionHistoryResponse (* session_id *) str (* user_id *) str (* title *) str
    (* messages *) "Message list" (* created_at *) datetime (* updated_at *) datetime

section \<open>utils/audio\_processing.py\<close>

text \<open>The dictionary \<open>{"url": u}\<close> is modelled by \<open>u\<close>.\<close>

definition validate_image_url :: "str \<Rightarrow> str" where
  "validate_image_url image_input =
     (if prefix (lit ''http://'') image_input \<or> prefix (lit ''https://'') image_input
      then image_input
      else if \<not> prefix (lit ''data:'') image_input
           then lit ''data:image/jpeg;base64,'' @ image_input
           else image_input)"

section \<open>routes/chat\_routes.py\<close>

text \<open>
  What a request draws from outside the program is an input of the model: the
  identifier \<open>uuid.uuid4()\<close> returns, the instants \<open>datetime.utcnow()\<close> returns, the
  replies of the external API and the faults of the database calls.
\<close>

record create_env =
  uuid4 :: str
  now_created :: datetime
  now_updated :: datetime
  insert_fault :: "error option"

definition create_session ::
  "ChatSession list state \<Rightarrow> create_env \<Rightarrow> str \<Rightarrow>
   (exn + SessionCreateResponse) \<times> ChatSession list state" where
  "create_session st env uid =
     (let sid = uuid4 env;
          chat_session = \<lparr>session_id = sid, user_id = uid, title = lit ''New Chat'',
                          messages = [], created_at = now_created env,
                          updated_at = now_updated env\<rparr>;
          st = logged InsertOne st
      in case insert_fault env of
           Some e \<Rightarrow>
             (Inl (HTTPException 500 (lit ''Failed to create session: '' @ str_error e)), st)
         | None \<Rightarrow>
             (Inr (SessionCreateResponse sid uid (title chat_session)
                     (lit ''Session created successfully'') (created_at chat_session)),
              st\<lparr>store := insert_one chat_session (store st)\<rparr>))"

text \<open>
  A file field of the form is \<open>Union[UploadFile, str, None]\<close>; a string value is
  normalised to \<open>None\<close>. Of an uploaded audio file the model keeps whether reading it
  raises; of an uploaded image its content type and the base64 text of its bytes
  (or the exception that reading or encoding raises).
\<close>

datatype 'f form_file = NoFile | StrValue str | Upload 'f

fun normalize_upload :: "'f form_file \<Rightarrow> 'f option" where
  "normalize_upload NoFile = None"
| "normalize_upload (StrValue v) = None"
| "normalize_upload (Upload f) = Some f"

record audio_file =
  audio_read_fault :: "str option"

record image_file =
  image_content_type :: "str option"
  image_base64 :: "str + str"

record message_env =
  find_fault :: "error option"
  transcription_reply :: transcript_reply
  title_reply :: api_reply
  chat_reply :: api_reply
  validation_text :: str
  update_fault :: "error option"
  now_user :: datetime
  now_assistant :: datetime
  now_session :: datetime

text \<open>
  \<open>validation_text\<close> is the text of the \<open>ValidationError\<close> that the model library raises
  when the assistant's \<open>Message\<close> is built with the content \<open>None\<close>.
\<close>

text \<open>Lines 157-177: voice to text.\<close>

definition process_audio ::
  "'c state \<Rightarrow> message_env \<Rightarrow> str \<Rightarrow> audio_file option \<Rightarrow> (exn + str) \<times> 'c state" where
  "process_audio st env message audio =
     (let user_message_text = message
      in case audio of
           None \<Rightarrow> (Inr user_message_text, st)
         | Some f \<Rightarrow>
             (case audio_read_fault f of
                Some m \<Rightarrow>
                  (Inl (HTTPException 400 (lit ''Audio transcription failed: '' @ m)), st)
              | None \<Rightarrow>
                  (case transcribe_audio st (transcription_reply env) of
                     (Inl e, st) \<Rightarrow>
                       (Inl (HTTPException 400
                               (lit ''Audio transcription failed: '' @ str_error e)), st)
                   | (Inr transcribed_text, st) \<Rightarrow>
                       (if user_message_text \<noteq> []
                        then (Inr (user_message_text @ lit '' '' @ transcribed_text), st)
                        else (Inr transcribed_text, st)))))"

text \<open>Lines 186-200: the image as a data URL.\<close>

definition process_image :: "image_file option \<Rightarrow> exn + str option" where
  "process_image img =
     (case img of
        None \<Rightarrow> Inr None
      | Some f \<Rightarrow>
          (case image_base64 f of
             Inl m \<Rightarrow> Inl (HTTPException 400 (lit ''Image processing failed: '' @ m))
           | Inr b64 \<Rightarrow>
               (let content_type =
                      (case image_content_type f of
                         None \<Rightarrow> lit ''image/jpeg''
                       | Some t \<Rightarrow> if t = [] then lit ''image/jpeg'' else t)
                in Inr (Some (lit ''data:'' @ content_type @ lit '';base64,''
                              @ b64)))))"

text \<open>Lines 202-209: the title, from the first message.\<close>

definition assign_title ::
  "'c state \<Rightarrow> bool \<Rightarrow> str \<Rightarrow> api_reply \<Rightarrow> str \<Rightarrow> str \<times> 'c state" where
  "assign_title st is_first_message user_message_text reply old_title =
     (if is_first_message \<and> user_message_text \<noteq> [] then
        (case generate_title st user_message_text reply of
           (Inr generated_title, st) \<Rightarrow> (generated_title, st)
         | (Inl e, st) \<Rightarrow>
             (strip (take 40 user_message_text)
              @ (if length user_message_text > 40 then lit ''...'' else []), st))
      else (old_title, st))"

text \<open>Lines 211-230: the user's message.\<close>

definition user_message_of :: "str \<Rightarrow> str option \<Rightarrow> datetime \<Rightarrow> Message" where
  "user_message_of user_message_text image_data now =
     (let user_content =
            (case image_data of
               Some d \<Rightarrow>
                 Parts ((if user_message_text \<noteq> []
                         then [\<lparr>mc_type = text_type, mc_text = Some user_message_text,
                                 mc_image_url = None\<rparr>]
                         else [])
                        @ [\<lparr>mc_type = image_url_type, mc_text = None,
                             mc_image_url = Some (validate_image_url d)\<rparr>])
             | None \<Rightarrow> Str user_message_text)
      in \<lparr>role = user, content = user_content, timestamp = now\<rparr>)"

definition session_filter :: "str \<Rightarrow> str \<Rightarrow> ChatSession \<Rightarrow> bool" where
  "session_filter sid uid d \<longleftrightarrow> session_id d = sid \<and> user_id d = uid"

definition not_found :: exn where
  "not_found = HTTPException 404 (lit ''Session not found or does not belong to user'')"

text \<open>
  The body of \<open>send_message\<close> inside its outer \<open>try\<close>, in two parts. The first part runs
  from the lookup of the session (line 141) to the assistant's message (line 281): it
  reads the stored session once and builds, from that copy, the whole document to write.
  The second part is the write (lines 284-288), a \<open>$set\<close> of the whole document with
  \<open>upsert=True\<close>, and the response. Between the lookup and the write the handler awaits
  (the transcription, the title generation, the chat completion) and never reads the
  collection again, so what other requests write meanwhile is in the collection when the
  second part runs.

  The list \<open>openai_messages\<close> built at lines 235-261 is the payload of the request to the
  external API and has no other use; the reply to that request is \<open>chat_reply\<close>.
  \<open>send_message_prepare\<close> returns the document to write and the reply. The timestamp of
  the response is the one of the assistant's message, \<open>now_assistant env\<close>.
\<close>

definition send_message_prepare ::
  "ChatSession list state \<Rightarrow> message_env \<Rightarrow> str \<Rightarrow> str \<Rightarrow> str \<Rightarrow>
   audio_file form_file \<Rightarrow> image_file form_file \<Rightarrow>
   (exn + ChatSession \<times> str) \<times> ChatSession list state" where
  "send_message_prepare st env uid sid message audio img =
     (let audio_upload = normalize_upload audio;
          image_upload = normalize_upload img;
          st = logged FindOne st
      in case find_fault env of
           Some e \<Rightarrow> (Inl (Error e), st)
         | None \<Rightarrow>
         (case find_one (session_filter sid uid) (store st) of
            None \<Rightarrow> (Inl not_found, st)
          | Some chat_session \<Rightarrow>
          (let is_first_message = (length (messages chat_session) = 0)
           in case process_audio st env message audio_upload of
                (Inl x, st) \<Rightarrow> (Inl x, st)
              | (Inr user_message_text, st) \<Rightarrow>
              (if user_message_text = [] \<and> image_upload = None then
                 (Inl (HTTPException 400
                    (lit ''At least one of message, audio, or image must be provided'')), st)
               else
               (case process_image image_upload of
                  Inl x \<Rightarrow> (Inl x, st)
                | Inr image_data \<Rightarrow>
                (case assign_title st is_first_message user_message_text (title_reply env)
                        (title chat_session) of
                   (new_title, st) \<Rightarrow>
                   (let chat_session = chat_session\<lparr>title := new_title\<rparr>;
                        user_message = user_message_of user_message_text image_data (now_user env);
                        chat_session = chat_session
                          \<lparr>messages := messages chat_session @ [user_message]\<rparr>
                    in case chat_completion st (chat_reply env) of
                         (Inl e, st) \<Rightarrow>
                           (Inl (HTTPException 500 (lit ''OpenAI API error: '' @ str_error e)), st)
                       | (Inr None, st) \<Rightarrow>
                           (Inl (Error (Exception (validation_text env))), st)
                       | (Inr (Some ai_response), st) \<Rightarrow>
                         (let assistant_message =
                                \<lparr>role = assistant, content = Str ai_response,
                                 timestamp = now_assistant env\<rparr>;
                              chat_session = chat_session
                                \<lparr>messages := messages chat_session @ [assistant_message],
                                 updated_at := now_session env\<rparr>
                          in (Inr (chat_session, ai_response), st)))))))))"

definition send_message_write ::
  "ChatSession list state \<Rightarrow> message_env \<Rightarrow> str \<Rightarrow> str \<Rightarrow> ChatSession \<times> str \<Rightarrow>
   (exn + ChatResponse) \<times> ChatSession list state" where
  "send_message_write st env uid sid prepared =
     (case prepared of
        (chat_session, ai_response) \<Rightarrow>
          (let st = logged UpdateOne st
           in case update_fault env of
                Some e \<Rightarrow> (Inl (Error e), st)
              | None \<Rightarrow>
                  (Inr (ChatResponse sid (title chat_session) ai_response (now_assistant env)),
                   st\<lparr>store := update_one_upsert (session_filter sid uid)
                                  (\<lambda>_. chat_session) chat_session (store st)\<rparr>)))"

text \<open>A request that runs with no other request between its two parts.\<close>

definition send_message_body ::
  "ChatSession list state \<Rightarrow> message_env \<Rightarrow> str \<Rightarrow> str \<Rightarrow> str \<Rightarrow>
   audio_file form_file \<Rightarrow> image_file form_file \<Rightarrow>
   (exn + ChatResponse) \<times> ChatSession list state" where
  "send_message_body st env uid sid message audio img =
     (case send_message_prepare st env uid sid message audio img of
        (Inl x, st) \<Rightarrow> (Inl x, st)
      | (Inr prepared, st) \<Rightarrow> send_message_write st env uid sid prepared)"

text \<open>
  The outer handler of the route: \<open>except HTTPException: raise\<close> and
  \<open>except Exception as e: raise HTTPException(500, "Internal server error: " + str(e))\<close>.
\<close>

definition send_message_handler :: "(exn + 'r) \<times> 's \<Rightarrow> (exn + 'r) \<times> 's" where
  "send_message_handler r =
     (case r of
        (Inl x, st) \<Rightarrow> (Inl (reraise (lit ''Internal server error: '') x), st)
      | (Inr v, st) \<Rightarrow> (Inr v, st))"

definition send_message ::
  "ChatSession list state \<Rightarrow> message_env \<Rightarrow> str \<Rightarrow> str \<Rightarrow> str \<Rightarrow>
   audio_file form_file \<Rightarrow> image_file form_file \<Rightarrow>
   (exn + ChatResponse) \<times> ChatSession list state" where
  "send_message st env uid sid message audio img =
     send_message_handler (send_message_body st env uid sid message audio img)"

text \<open>
  The same request with other requests served during its awaits: \<open>other\<close> is what their
  handlers did to the state between the lookup and the write of this one.
\<close>

definition send_message_overlapped ::
  "ChatSession list state \<Rightarrow> message_env \<Rightarrow> str \<Rightarrow> str \<Rightarrow> str \<Rightarrow>
   audio_file form_file \<Rightarrow> image_file form_file \<Rightarrow>
   (ChatSession list state \<Rightarrow> ChatSession list state) \<Rightarrow>
   (exn + ChatResponse) \<times> ChatSession list state" where
  "send_message_overlapped st env uid sid message audio img other =
     send_message_handler
       (case send_message_prepare st env uid sid message audio img of
          (Inl x, st) \<Rightarrow> (Inl x, st)
        | (Inr prepared, st) \<Rightarrow> send_message_write (other st) env uid sid prepared)"

definition get_session_history ::
  "ChatSession list state \<Rightarrow> error option \<Rightarrow> str \<Rightarrow> str \<Rightarrow>
   (exn + SessionHistoryResponse) \<times> ChatSession list state" where
  "get_session_history st fault sid uid =
     (let st = logged FindOne st
      in case fault of
           Some e \<Rightarrow>
             (Inl (reraise (lit ''Failed to retrieve session history: '') (Error e)), st)
         | None \<Rightarrow>
             (case find_one (session_filter sid uid) (store st) of
                None \<Rightarrow>
                  (Inl (reraise (lit ''Failed to retrieve session history: '') not_found), st)
              | Some chat_session \<Rightarrow>
                  (Inr (SessionHistoryResponse (session_id chat_session) (user_id chat_session)
                          (title chat_session) (messages chat_session)
                          (created_at chat_session) (updated_at chat_session)), st)))"

text \<open>The dictionary \<open>delete_session\<close> returns is the pair of its two values.\<close>

definition delete_session ::
  "ChatSession list state \<Rightarrow> error option \<Rightarrow> str \<Rightarrow> str \<Rightarrow>
   (exn + str \<times> str) \<times> ChatSession list state" where
  "delete_session st fault sid uid =
     (let st = logged DeleteOne st
      in case fault of
           Some e \<Rightarrow> (Inl (reraise (lit ''Failed to delete session: '') (Error e)), st)
         | None \<Rightarrow>
             (case delete_one (session_filter sid uid) (store st) of
                (deleted_count, coll) \<Rightarrow>
                  (if deleted_count = 0
                   then (Inl (reraise (lit ''Failed to delete session: '') not_found),
                         st\<lparr>store := coll\<rparr>)
                   else (Inr (lit ''Session deleted successfully'', sid),
                         st\<lparr>store := coll\<rparr>))))"

section \<open>routes/temp\_chat\_routes.py\<close>

text \<open>
  \<open>TEMP_SESSIONS\<close> is a dictionary from session identifiers to session objects. The
  handler mutates the object it finds in the dictionary, so every assignment to
  \<open>chat_session\<close> is an update of the dictionary.
\<close>

type_synonym temp_sessions = "str \<rightharpoonup> ChatSession"

definition create_temp_session ::
  "temp_sessions state \<Rightarrow> create_env \<Rightarrow> str \<Rightarrow>
   (exn + SessionCreateResponse) \<times> temp_sessions state" where
  "create_temp_session st env uid =
     (let sid = uuid4 env;
          chat_session = \<lparr>session_id = sid, user_id = uid, title = lit ''Temporary Chat'',
                          messages = [], created_at = now_created env,
                          updated_at = now_updated env\<rparr>
      in (Inr (SessionCreateResponse sid uid (title chat_session)
                 (lit ''Temporary session created successfully'') (created_at chat_session)),
          st\<lparr>store := (store st)(sid \<mapsto> chat_session)\<rparr>))"

definition send_temp_message_body ::
  "temp_sessions state \<Rightarrow> message_env \<Rightarrow> str \<Rightarrow> str \<Rightarrow> str \<Rightarrow>
   audio_file form_file \<Rightarrow> image_file form_file \<Rightarrow>
   (exn + ChatResponse) \<times> temp_sessions state" where
  "send_temp_message_body st env uid sid message audio img =
     (let audio_upload = normalize_upload audio;
          image_upload = normalize_upload img
      in case store st sid of
           None \<Rightarrow>
             (Inl (HTTPException 404 (lit
                ''Temporary session not found (it may have been cleared on server restart)'')),
              st)
         | Some chat_session \<Rightarrow>
         (if user_id chat_session \<noteq> uid then
            (Inl (HTTPException 403 (lit ''Session does not belong to user'')), st)
          else
          (let is_first_message = (length (messages chat_session) = 0)
           in case process_audio st env message audio_upload of
                (Inl x, st) \<Rightarrow> (Inl x, st)
              | (Inr user_message_text, st) \<Rightarrow>
              (if user_message_text = [] \<and> image_upload = None then
                 (Inl (HTTPException 400
                    (lit ''At least one of message, audio, or image must be provided'')), st)
               else
               (case process_image image_upload of
                  Inl x \<Rightarrow> (Inl x, st)
                | Inr image_data \<Rightarrow>
                (case assign_title st is_first_message user_message_text (title_reply env)
                        (title chat_session) of
                   (new_title, st) \<Rightarrow>
                   (let chat_session = chat_session\<lparr>title := new_title\<rparr>;
                        user_message = user_message_of user_message_text image_data (now_user env);
                        chat_session = chat_session
                          \<lparr>messages := messages chat_session @ [user_message]\<rparr>;
                        st = st\<lparr>store := (store st)(sid \<mapsto> chat_session)\<rparr>
                    in case chat_completion st (chat_reply env) of
                         (Inl e, st) \<Rightarrow>
                           (Inl (HTTPException 500 (lit ''OpenAI API error: '' @ str_error e)), st)
                       | (Inr None, st) \<Rightarrow>
                           (Inl (Error (Exception (validation_text env))), st)
                       | (Inr (Some ai_response), st) \<Rightarrow>
                         (let assistant_message =
                                \<lparr>role = assistant, content = Str ai_response,
                                 timestamp = now_assistant env\<rparr>;
                              chat_session = chat_session
                                \<lparr>messages := messages chat_session @ [assistant_message],
                                 updated_at := now_session env\<rparr>
                          in (Inr (ChatResponse sid (title chat_session) ai_response
                                     (timestamp assistant_message)),
                              st\<lparr>store := (store st)(sid \<mapsto> chat_session)\<rparr>)))))))))"

definition send_temp_message ::
  "temp_sessions state \<Rightarrow> message_env \<Rightarrow> str \<Rightarrow> str \<Rightarrow> str \<Rightarrow>
   audio_file form_file \<Rightarrow> image_file form_file \<Rightarrow>
   (exn + ChatResponse) \<times> temp_sessions state" where
  "send_temp_message st env uid sid message audio img =
     (case send_temp_message_body st env uid sid message audio img of
        (Inl x, st) \<Rightarrow> (Inl (reraise (lit ''Internal server error: '') x), st)
      | (Inr r, st) \<Rightarrow> (Inr r, st))"

section \<open>models/group\_chat.py and services/group\_chat\_service.py\<close>

datatype GroupType = STUDENT | BUSINESS | GENERAL

record GroupMessage =
  message_id :: str
  gm_user_id :: str
  gm_content :: str
  gm_timestamp :: datetime
  is_ai :: bool

record Group =
  group_id :: str
  name :: str
  gtype :: GroupType
  creator_id :: str
  members :: "str list"
  group_created_at :: datetime
  group_messages :: "GroupMessage list"

record GroupChatSession =
  gcs_session_id :: str
  gcs_user_id :: str
  gcs_created_at :: datetime

text \<open>The two collections of the service, \<open>group_chat_sessions\<close> and \<open>groups\<close>.\<close>

record group_db =
  group_chat_sessions :: "GroupChatSession list"
  groups :: "Group list"

type_synonym group_state = "group_db state"

text \<open>
  The methods of the service let the exceptions of the database pass (\<open>Error e\<close>) and
  raise \<open>HTTPException\<close>s of their own.
\<close>

definition group_create_session ::
  "group_state \<Rightarrow> create_env \<Rightarrow> str \<Rightarrow> (exn + str) \<times> group_state" where
  "group_create_session st env uid =
     (let sid = uuid4 env;
          session = \<lparr>gcs_session_id = sid, gcs_user_id = uid,
                     gcs_created_at = now_created env\<rparr>;
          st = logged InsertOne st
      in case insert_fault env of
           Some e \<Rightarrow> (Inl (Error e), st)
         | None \<Rightarrow>
             (Inr sid,
              st\<lparr>store := (store st)
                     \<lparr>group_chat_sessions :=
                        insert_one session (group_chat_sessions (store st))\<rparr>\<rparr>))"

definition validate_session ::
  "group_state \<Rightarrow> error option \<Rightarrow> str \<Rightarrow> str \<Rightarrow> (exn + unit) \<times> group_state" where
  "validate_session st fault sid uid =
     (let st = logged FindOne st
      in case fault of
           Some e \<Rightarrow> (Inl (Error e), st)
         | None \<Rightarrow>
             (case find_one (\<lambda>d. gcs_session_id d = sid \<and> gcs_user_id d = uid)
                     (group_chat_sessions (store st)) of
                None \<Rightarrow> (Inl (HTTPException 401 (lit ''Invalid session or user mismatch'')), st)
              | Some _ \<Rightarrow> (Inr (), st)))"

definition find_group ::
  "group_state \<Rightarrow> error option \<Rightarrow> str \<Rightarrow> (exn + Group) \<times> group_state" where
  "find_group st fault gid =
     (let st = logged FindOne st
      in case fault of
           Some e \<Rightarrow> (Inl (Error e), st)
         | None \<Rightarrow>
             (case find_one (\<lambda>g. group_id g = gid) (groups (store st)) of
                None \<Rightarrow> (Inl (HTTPException 404 (lit ''Group not found'')), st)
              | Some grp \<Rightarrow> (Inr grp, st)))"

text \<open>One \<open>update_one\<close> on the collection \<open>groups\<close>, filtered by the group identifier.\<close>

definition update_group ::
  "group_state \<Rightarrow> error option \<Rightarrow> str \<Rightarrow> (Group \<Rightarrow> Group) \<Rightarrow> (exn + unit) \<times> group_state" where
  "update_group st fault gid upd =
     (let st = logged UpdateOne st
      in case fault of
           Some e \<Rightarrow> (Inl (Error e), st)
         | None \<Rightarrow>
             (Inr (),
              st\<lparr>store := (store st)
                     \<lparr>groups := update_one (\<lambda>g. group_id g = gid) upd (groups (store st))\<rparr>\<rparr>))"

text \<open>
  What a call of a service method draws from outside: the faults of the database calls it
  makes, in their order, the reply of the external API, the identifiers \<open>uuid.uuid4()\<close>
  returns and the instants \<open>datetime.utcnow()\<close> returns; \<open>service_validation_text\<close> is the
  text of the \<open>ValidationError\<close> that the model library raises when a \<open>GroupMessage\<close> or an
  \<open>Interaction\<close> is built with \<open>None\<close> for a required string.
\<close>

record service_env =
  session_fault :: "error option"
  group_fault :: "error option"
  first_write_fault :: "error option"
  second_write_fault :: "error option"
  ai_reply :: api_reply
  service_validation_text :: str
  first_uuid4 :: str
  second_uuid4 :: str
  first_now :: datetime
  second_now :: datetime

definition create_group ::
  "group_state \<Rightarrow> service_env \<Rightarrow> str \<Rightarrow> str \<Rightarrow> str \<Rightarrow> GroupType \<Rightarrow>
   (exn + Group) \<times> group_state" where
  "create_group st env uid sid group_name group_type =
     (case validate_session st (session_fault env) sid uid of
        (Inl x, st) \<Rightarrow> (Inl x, st)
      | (Inr _, st) \<Rightarrow>
          (let gid = first_uuid4 env;
               grp = \<lparr>group_id = gid, name = group_name, gtype = group_type,
                        creator_id = uid, members = [uid],
                        group_created_at = first_now env, group_messages = []\<rparr>;
               st = logged InsertOne st
           in case first_write_fault env of
                Some e \<Rightarrow> (Inl (Error e), st)
              | None \<Rightarrow>
                  (Inr grp,
                   st\<lparr>store := (store st)
                          \<lparr>groups := insert_one grp (groups (store st))\<rparr>\<rparr>)))"

definition join_group ::
  "group_state \<Rightarrow> service_env \<Rightarrow> str \<Rightarrow> str \<Rightarrow> str \<Rightarrow> (exn + Group) \<times> group_state" where
  "join_group st env uid sid gid =
     (case validate_session st (session_fault env) sid uid of
        (Inl x, st) \<Rightarrow> (Inl x, st)
      | (Inr _, st) \<Rightarrow>
          (case find_group st (group_fault env) gid of
             (Inl x, st) \<Rightarrow> (Inl x, st)
           | (Inr grp, st) \<Rightarrow>
               (if uid \<notin> set (members grp) then
                  (let grp = grp\<lparr>members := members grp @ [uid]\<rparr>
                   in case update_group st (first_write_fault env) gid
                             (\<lambda>g. g\<lparr>members := members grp\<rparr>) of
                        (Inl x, st) \<Rightarrow> (Inl x, st)
                      | (Inr _, st) \<Rightarrow> (Inr grp, st))
                else (Inr grp, st))))"

text \<open>
  \<open>send_message\<close> of the service. The list \<open>context_messages\<close> (lines 115-124) is the
  payload of the request to the external API and has no other use. The reply message is
  built outside the \<open>try\<close> (lines 139-145); its \<open>content\<close> is a required string, so with the
  content \<open>None\<close> the constructor raises, after the first write.
\<close>

definition group_send_message ::
  "group_state \<Rightarrow> service_env \<Rightarrow> str \<Rightarrow> str \<Rightarrow> str \<Rightarrow> str \<Rightarrow>
   (exn + GroupMessage) \<times> group_state" where
  "group_send_message st env gid sid uid text_content =
     (case validate_session st (session_fault env) sid uid of
        (Inl x, st) \<Rightarrow> (Inl x, st)
      | (Inr _, st) \<Rightarrow>
          (case find_group st (group_fault env) gid of
             (Inl x, st) \<Rightarrow> (Inl x, st)
           | (Inr grp, st) \<Rightarrow>
               (if uid \<notin> set (members grp) then
                  (Inl (HTTPException 403 (lit ''User is not a member of this group'')), st)
                else
                  (let user_message =
                         \<lparr>message_id = first_uuid4 env, gm_user_id = uid,
                          gm_content = text_content, gm_timestamp = first_now env,
                          is_ai = False\<rparr>
                   in case update_group st (first_write_fault env) gid
                             (\<lambda>g. g\<lparr>group_messages := group_messages g @ [user_message]\<rparr>) of
                        (Inl x, st) \<Rightarrow> (Inl x, st)
                      | (Inr _, st) \<Rightarrow>
                          (case chat_completion st (ai_reply env) of
                             (r, st) \<Rightarrow>
                               (let ai_response_content =
                                      (case r of
                                         Inr c \<Rightarrow> c
                                       | Inl e \<Rightarrow> Some (lit
                ''I'm having trouble connecting right now. Please try again later.''))
                                in case ai_response_content of
                                     None \<Rightarrow>
                                       (Inl (Error (Exception (service_validation_text env))), st)
                                   | Some reply_text \<Rightarrow>
                                       (let ai_message =
                                              \<lparr>message_id = second_uuid4 env,
                                               gm_user_id = lit ''AI'', gm_content = reply_text,
                                               gm_timestamp = second_now env, is_ai = True\<rparr>
                                        in case update_group st (second_write_fault env) gid
                                                  (\<lambda>g. g\<lparr>group_messages :=
                                                            group_messages g @ [ai_message]\<rparr>) of
                                             (Inl x, st) \<Rightarrow> (Inl x, st)
                                           | (Inr _, st) \<Rightarrow> (Inr ai_message, st))))))))"

definition get_group_history ::
  "group_state \<Rightarrow> error option \<Rightarrow> str \<Rightarrow> (exn + GroupMessage list) \<times> group_state" where
  "get_group_history st fault gid =
     (case find_group st fault gid of
        (Inl x, st) \<Rightarrow> (Inl x, st)
      | (Inr grp, st) \<Rightarrow> (Inr (group_messages grp), st))"

definition delete_group ::
  "group_state \<Rightarrow> error option \<Rightarrow> error option \<Rightarrow> str \<Rightarrow> str \<Rightarrow>
   (exn + unit) \<times> group_state" where
  "delete_group st find_flt delete_flt gid uid =
     (case find_group st find_flt gid of
        (Inl x, st) \<Rightarrow> (Inl x, st)
      | (Inr group_data, st) \<Rightarrow>
          (if creator_id group_data \<noteq> uid then
             (Inl (HTTPException 403 (lit ''Only the creator can delete the group'')), st)
           else
             (let st = logged DeleteOne st
              in case delete_flt of
                   Some e \<Rightarrow> (Inl (Error e), st)
                 | None \<Rightarrow>
                     (Inr (),
                      st\<lparr>store := (store st)
                             \<lparr>groups := snd (delete_one (\<lambda>g. group_id g = gid)
                                                (groups (store st)))\<rparr>\<rparr>))))"

subsection \<open>routes/group\_chat\_routes.py\<close>

text \<open>
  Each route calls the method of the service inside
  \<open>except HTTPException: raise\<close> / \<open>except Exception as e: raise HTTPException(500, str(e))\<close>.
\<close>

definition route :: "(exn + 'r) \<times> 's \<Rightarrow> (exn + 'r) \<times> 's" where
  "route r =
     (case r of
        (Inl x, st) \<Rightarrow> (Inl (reraise [] x), st)
      | (Inr v, st) \<Rightarrow> (Inr v, st))"

definition send_message_route ::
  "group_state \<Rightarrow> service_env \<Rightarrow> str \<Rightarrow> str \<Rightarrow> str \<Rightarrow> str \<Rightarrow>
   (exn + GroupMessage) \<times> group_state" where
  "send_message_route st env uid sid gid text_content =
     route (group_send_message st env gid sid uid text_content)"

definition join_group_route ::
  "group_state \<Rightarrow> service_env \<Rightarrow> str \<Rightarrow> str \<Rightarrow> str \<Rightarrow> (exn + Group) \<times> group_state" where
  "join_group_route st env uid sid gid = route (join_group st env uid sid gid)"

section \<open>models/global\_language.py and services/global\_language\_service.py\<close>

datatype InteractionType = CHAT | VOICE

record Interaction =
  interaction_id :: str
  itype :: InteractionType
  user_input :: str
  ai_response :: str
  target_language :: str
  audio_url :: "str option"
  i_timestamp :: datetime

record GlobalSession =
  gl_session_id :: str
  gl_user_id :: str
  gl_created_at :: datetime
  interactions :: "Interaction list"

type_synonym global_state = "GlobalSession list state"

definition gl_create_session ::
  "global_state \<Rightarrow> create_env \<Rightarrow> str \<Rightarrow> (exn + str) \<times> global_state" where
  "gl_create_session st env uid =
     (let sid = uuid4 env;
          session = \<lparr>gl_session_id = sid, gl_user_id = uid, gl_created_at = now_created env,
                     interactions = []\<rparr>;
          st = logged InsertOne st
      in case insert_fault env of
           Some e \<Rightarrow> (Inl (Error e), st)
         | None \<Rightarrow> (Inr sid, st\<lparr>store := insert_one session (store st)\<rparr>))"

definition get_session ::
  "global_state \<Rightarrow> error option \<Rightarrow> str \<Rightarrow> (exn + GlobalSession) \<times> global_state" where
  "get_session st fault sid =
     (let st = logged FindOne st
      in case fault of
           Some e \<Rightarrow> (Inl (Error e), st)
         | None \<Rightarrow>
             (case find_one (\<lambda>d. gl_session_id d = sid) (store st) of
                None \<Rightarrow> (Inl (HTTPException 404 (lit ''Session not found'')), st)
              | Some data \<Rightarrow> (Inr data, st)))"

definition add_interaction ::
  "global_state \<Rightarrow> error option \<Rightarrow> str \<Rightarrow> Interaction \<Rightarrow> (exn + unit) \<times> global_state" where
  "add_interaction st fault sid interaction =
     (let st = logged UpdateOne st
      in case fault of
           Some e \<Rightarrow> (Inl (Error e), st)
         | None \<Rightarrow>
             (Inr (),
              st\<lparr>store := update_one (\<lambda>d. gl_session_id d = sid)
                             (\<lambda>d. d\<lparr>interactions := interactions d @ [interaction]\<rparr>)
                             (store st)\<rparr>))"

text \<open>The response \<open>ChatResponse(response_text, target_language)\<close> is the pair of its fields.\<close>

definition process_chat_interaction ::
  "global_state \<Rightarrow> service_env \<Rightarrow> str \<Rightarrow> str \<Rightarrow> str \<Rightarrow> str \<Rightarrow>
   (exn + str \<times> str) \<times> global_state" where
  "process_chat_interaction st env sid uid message language =
     (case get_session st (session_fault env) sid of
        (Inl x, st) \<Rightarrow> (Inl x, st)
      | (Inr _, st) \<Rightarrow>
          (case chat_completion st (ai_reply env) of
             (Inl e, st) \<Rightarrow>
               (Inl (HTTPException 500
                       (lit ''AI Response generation failed: '' @ str_error e)), st)
           | (Inr None, st) \<Rightarrow>
               (Inl (Error (Exception (service_validation_text env))), st)
           | (Inr (Some ai_text_response), st) \<Rightarrow>
               (let interaction =
                      \<lparr>interaction_id = first_uuid4 env, itype = CHAT, user_input = message,
                       ai_response = ai_text_response, target_language = language,
                       audio_url = None, i_timestamp = first_now env\<rparr>
                in case add_interaction st (first_write_fault env) sid interaction of
                     (Inl x, st) \<Rightarrow> (Inl x, st)
                   | (Inr _, st) \<Rightarrow> (Inr (ai_text_response, language), st))))"

definition get_history ::
  "global_state \<Rightarrow> error option \<Rightarrow> str \<Rightarrow> (exn + Interaction list) \<times> global_state" where
  "get_history st fault sid =
     (case get_session st fault sid of
        (Inl x, st) \<Rightarrow> (Inl x, st)
      | (Inr session, st) \<Rightarrow> (Inr (interactions session), st))"

definition gl_delete_session ::
  "global_state \<Rightarrow> error option \<Rightarrow> str \<Rightarrow> (exn + unit) \<times> global_state" where
  "gl_delete_session st fault sid =
     (let st = logged DeleteOne st
      in case fault of
           Some e \<Rightarrow> (Inl (Error e), st)
         | None \<Rightarrow>
             (case delete_one (\<lambda>d. gl_session_id d = sid) (store st) of
                (deleted_count, coll) \<Rightarrow>
                  (if deleted_count = 0
                   then (Inl (HTTPException 404 (lit ''Session not found'')), st\<lparr>store := coll\<rparr>)
                   else (Inr (), st\<lparr>store := coll\<rparr>))))"

section \<open>Sequences of calls\<close>

text \<open>
  A sequence of requests to one handler, each with its own environment and user: the
  state a call leaves is the state the next call starts from. The result is the list of
  the responses.
\<close>

fun run_calls :: "('s \<Rightarrow> 'e \<Rightarrow> str \<Rightarrow> 'r \<times> 's) \<Rightarrow> 's \<Rightarrow> ('e \<times> str) list \<Rightarrow> 'r list" where
  "run_calls f st [] = []"
| "run_calls f st ((env, uid) # reqs) =
     (case f st env uid of (r, st') \<Rightarrow> r # run_calls f st' reqs)"

text \<open>The session identifier a response of the chat route carries.\<close>

fun issued_id :: "exn + SessionCreateResponse \<Rightarrow> str option" where
  "issued_id (Inr (SessionCreateResponse sid _ _ _ _)) = Some sid"
| "issued_id (Inl _) = None"

text \<open>
  A sequence of message requests to the chat route; each request carries its environment
  and the fields of its form.
\<close>

record message_request =
  rq_env :: message_env
  rq_user_id :: str
  rq_session_id :: str
  rq_message :: str
  rq_audio :: "audio_file form_file"
  rq_image :: "image_file form_file"

fun run_messages :: "ChatSession list state \<Rightarrow> message_request list \<Rightarrow> ChatSession list state" where
  "run_messages st [] = st"
| "run_messages st (rq # reqs) =
     run_messages
       (snd (send_message st (rq_env rq) (rq_user_id rq) (rq_session_id rq) (rq_message rq)
               (rq_audio rq) (rq_image rq))) reqs"

fun run_temp_messages :: "temp_sessions state \<Rightarrow> message_request list \<Rightarrow> temp_sessions state" where
  "run_temp_messages st [] = st"
| "run_temp_messages st (rq # reqs) =
     run_temp_messages
       (snd (send_temp_message st (rq_env rq) (rq_user_id rq) (rq_session_id rq) (rq_message rq)
               (rq_audio rq) (rq_image rq))) reqs"

section \<open>Histories\<close>

text \<open>
  A stored entity after an operation extends the entity before it when it has the same
  key and the history before is a prefix of the history after: the entries recorded
  before are all there, unchanged and in place, and new ones may follow. A collection has
  grown when each of its documents is still at its position, extended, and new documents
  may follow.
\<close>

definition session_extends :: "ChatSession \<Rightarrow> ChatSession \<Rightarrow> bool" where
  "session_extends d d' \<longleftrightarrow>
     session_id d' = session_id d \<and> user_id d' = user_id d \<and> prefix (messages d) (messages d')"

definition group_extends :: "Group \<Rightarrow> Group \<Rightarrow> bool" where
  "group_extends g g' \<longleftrightarrow>
     group_id g' = group_id g \<and> prefix (group_messages g) (group_messages g')"

definition global_extends :: "GlobalSession \<Rightarrow> GlobalSession \<Rightarrow> bool" where
  "global_extends d d' \<longleftrightarrow>
     gl_session_id d' = gl_session_id d \<and> gl_user_id d' = gl_user_id d \<and>
     prefix (interactions d) (interactions d')"

definition grown :: "('d \<Rightarrow> 'd \<Rightarrow> bool) \<Rightarrow> 'd list \<Rightarrow> 'd list \<Rightarrow> bool" where
  "grown ext coll coll' \<longleftrightarrow> list_all2 ext coll (take (length coll) coll')"

section \<open>Example states\<close>

text \<open>Concrete states and environments on which the theorems below are instantiated.\<close>

definition ex_service :: OpenAIService where
  "ex_service = \<lparr>OPENAI_API_KEY = lit ''key'', async_initialized = False\<rparr>"

definition ex_session :: ChatSession where
  "ex_session = \<lparr>session_id = lit ''s1'', user_id = lit ''alice'', title = lit ''New Chat'',
                  messages = [], created_at = 1, updated_at = 1\<rparr>"

definition ex_chat_state :: "ChatSession list state" where
  "ex_chat_state = \<lparr>store = [ex_session], service = ex_service, calls = []\<rparr>"

definition ex_temp_state :: "temp_sessions state" where
  "ex_temp_state = \<lparr>store = [lit ''s1'' \<mapsto> ex_session], service = ex_service, calls = []\<rparr>"

definition ex_message_env :: message_env where
  "ex_message_env =
     \<lparr>find_fault = None, transcription_reply = Inr (lit ''spoken''),
      title_reply = Inl (lit ''timeout''), chat_reply = Inr (Some (lit ''Hello'')),
      validation_text = lit ''1 validation error for Message'', update_fault = None, now_user = 2, now_assistant = 3, now_session = 4\<rparr>"

text \<open>A second request to the same session, served a little later.\<close>

definition ex_second_env :: message_env where
  "ex_second_env =
     ex_message_env\<lparr>chat_reply := Inr (Some (lit ''Hi again'')), now_user := 5,
                      now_assistant := 6, now_session := 7\<rparr>"

definition ex_second_request :: "ChatSession list state \<Rightarrow> ChatSession list state" where
  "ex_second_request st =
     snd (send_message st ex_second_env (lit ''alice'') (lit ''s1'') (lit ''second'') NoFile NoFile)"

definition ex_delete_request :: "ChatSession list state \<Rightarrow> ChatSession list state" where
  "ex_delete_request st = snd (delete_session st None (lit ''s1'') (lit ''alice''))"

definition ex_create_env :: create_env where
  "ex_create_env = \<lparr>uuid4 = lit ''u1'', now_created = 5, now_updated = 5, insert_fault = None\<rparr>"

definition ex_global_state :: global_state where
  "ex_global_state =
     \<lparr>store = [\<lparr>gl_session_id = lit ''s1'', gl_user_id = lit ''alice'', gl_created_at = 1,
                 interactions = []\<rparr>],
      service = ex_service, calls = []\<rparr>"

definition ex_group :: Group where
  "ex_group = \<lparr>group_id = lit ''g1'', name = lit ''Math'', gtype = STUDENT,
                creator_id = lit ''alice'', members = [lit ''alice''], group_created_at = 1,
                group_messages = []\<rparr>"

definition ex_group_state :: group_state where
  "ex_group_state =
     \<lparr>store = \<lparr>group_chat_sessions =
                  [\<lparr>gcs_session_id = lit ''s1'', gcs_user_id = lit ''alice'', gcs_created_at = 1\<rparr>,
                   \<lparr>gcs_session_id = lit ''s2'', gcs_user_id = lit ''bob'', gcs_created_at = 1\<rparr>],
                groups = [ex_group]\<rparr>,
      service = ex_service, calls = []\<rparr>"

definition ex_service_env :: service_env where
  "ex_service_env =
     \<lparr>session_fault = None, group_fault = None, first_write_fault = None,
      second_write_fault = None, ai_reply = Inr (Some (lit ''Hello'')),
      service_validation_text = lit ''1 validation error for GroupMessage'',
      first_uuid4 = lit ''u1'', second_uuid4 = lit ''u2'', first_now = 2, second_now = 3\<rparr>"

definition ex_long_message :: str where
  "ex_long_message = lit ''Please help me plan a two weeks trip to Japan in spring''"

definition ex_request :: message_request where
  "ex_request =
     \<lparr>rq_env = ex_message_env\<lparr>title_reply := Inr (Some (lit ''Another title''))\<rparr>,
      rq_user_id = lit ''alice'', rq_session_id = lit ''s1'',
      rq_message = lit ''And what about autumn?'', rq_audio = NoFile, rq_image = NoFile\<rparr>"

definition ex_image :: image_file where
  "ex_image = \<lparr>image_content_type = Some (lit ''image/png''), image_base64 = Inr (lit ''aGk='')\<rparr>"

section \<open>Properties\<close>

subsection \<open>Basic facts\<close>

lemma logged_simps [simp]:
  "store (logged c st) = store st"
  "service (logged c st) = service st"
  "calls (logged c st) = calls st @ [c]"
  by (simp_all add: logged_def)

lemma find_one_None_delete_one: "find_one flt coll = None \<Longrightarrow> delete_one flt coll = (0, coll)"
  by (induction coll) (auto simp: find_one_def split: if_splits)

lemma delete_one_count: "fst (delete_one flt coll) = (if find_one flt coll = None then 0 else 1)"
  by (induction coll) (auto simp: find_one_def split: if_splits prod.splits)

lemma delete_one_result:
  "delete_one flt coll = (n, coll') \<Longrightarrow> n = (if find_one flt coll = None then 0 else 1)"
  using delete_one_count [of flt coll] by simp

lemma find_one_None_iff: "find_one flt coll = None \<longleftrightarrow> filter flt coll = []"
  by (induction coll) (auto simp: find_one_def)

lemma filter_delete_one:
  "find_one flt coll \<noteq> None \<Longrightarrow>
   length (filter flt (snd (delete_one flt coll))) = length (filter flt coll) - 1"
  by (induction coll) (auto simp: find_one_def split: if_splits prod.splits)

lemma length_strip_with: "length (strip_with P s) \<le> length s"
proof -
  have "length (dropWhile P (rev (dropWhile P s))) \<le> length (rev (dropWhile P s))"
    by (rule length_dropWhile_le)
  also have "\<dots> \<le> length s"
    by (simp add: length_dropWhile_le)
  finally show ?thesis
    by (simp add: strip_with_def)
qed

lemma length_strip: "length (strip s) \<le> length s"
  by (simp add: strip_def length_strip_with)

lemma length_lit: "length (lit s) = length s"
  by (simp add: lit_def)


lemma delete_one_unique:
  "length (filter flt coll) = 1 \<Longrightarrow>
   fst (delete_one flt coll) = 1 \<and> find_one flt (snd (delete_one flt coll)) = None"
proof -
  assume a: "length (filter flt coll) = 1"
  then have ne: "find_one flt coll \<noteq> None"
    by (auto simp: find_one_None_iff)
  then have "length (filter flt (snd (delete_one flt coll))) = 0"
    using filter_delete_one [OF ne] a by simp
  then show ?thesis using ne
    by (simp add: delete_one_count find_one_None_iff)
qed

lemma find_one_update_one:
  "find_one flt coll = Some d \<Longrightarrow> flt (upd d) \<Longrightarrow>
   find_one flt (update_one flt upd coll) = Some (upd d)"
  by (induction coll) (auto simp: find_one_def split: if_splits)

lemma validate_session_ok:
  "find_one (\<lambda>d. gcs_session_id d = sid \<and> gcs_user_id d = uid)
     (group_chat_sessions (store st)) = Some s \<Longrightarrow>
   validate_session st None sid uid = (Inr (), logged FindOne st)"
  by (simp add: validate_session_def Let_def)

lemma find_group_ok:
  "find_one (\<lambda>g. group_id g = gid) (groups (store st)) = Some g \<Longrightarrow>
   find_group st None gid = (Inr g, logged FindOne st)"
  by (simp add: find_group_def Let_def)

lemma update_group_ok:
  "update_group st None gid upd =
     (Inr (), (logged UpdateOne st)\<lparr>store := (store st)
        \<lparr>groups := update_one (\<lambda>g. group_id g = gid) upd (groups (store st))\<rparr>\<rparr>)"
  by (simp add: update_group_def Let_def)

lemma update_group_fault:
  "update_group st (Some e) gid upd = (Inl (Error e), logged UpdateOne st)"
  by (simp add: update_group_def Let_def)



lemma find_one_prop: "find_one flt coll = Some d \<Longrightarrow> flt d"
  by (induction coll) (auto simp: find_one_def split: if_splits)

lemma chat_completion_store [simp]:
  "store (snd (chat_completion st reply)) = store st"
  by (simp add: chat_completion_def Let_def split: sum.splits)

lemma chat_completion_result:
  "fst (chat_completion st reply) =
     (case ensure_async_initialized (service st) of
        Inl e \<Rightarrow> Inl e
      | Inr _ \<Rightarrow> (case reply of Inl m \<Rightarrow> Inl (Exception (lit ''OpenAI API Error: '' @ m))
                   | Inr c \<Rightarrow> Inr c))"
  by (simp add: chat_completion_def Let_def split: sum.splits)

lemma chat_completion_calls:
  "calls (snd (chat_completion st reply)) =
     calls st @ (case ensure_async_initialized (service st) of
                   Inl _ \<Rightarrow> [] | Inr _ \<Rightarrow> [ChatCompletion])"
  by (simp add: chat_completion_def Let_def split: sum.splits)

lemma update_one_twice:
  "update_one flt f (update_one flt g coll) = update_one flt (f \<circ> g) coll"
  if "\<And>d. flt d \<Longrightarrow> flt (g d)"
  using that by (induction coll) auto

subsection \<open>What a handler leaves in its store\<close>

lemma transcribe_audio_store:
  "transcribe_audio st reply = (r, st') \<Longrightarrow> store st' = store st"
  by (auto simp: transcribe_audio_def Let_def split: sum.splits)

lemma process_audio_store:
  "process_audio st env message audio = (r, st') \<Longrightarrow> store st' = store st"
  by (auto simp: process_audio_def Let_def split: option.splits sum.splits prod.splits if_splits
           dest: transcribe_audio_store)

lemma generate_title_store:
  "generate_title st text reply = (r, st') \<Longrightarrow> store st' = store st"
  by (auto simp: generate_title_def Let_def split: sum.splits option.splits if_splits)

lemma assign_title_store:
  "assign_title st first text reply old = (t, st') \<Longrightarrow> store st' = store st"
  by (auto simp: assign_title_def split: if_splits prod.splits sum.splits
           dest: generate_title_store)

lemma assign_title_later:
  "assign_title st False text reply old = (old, st)"
  by (simp add: assign_title_def)

lemma chat_completion_store':
  "chat_completion st reply = (r, st') \<Longrightarrow> store st' = store st"
  using chat_completion_store [of st reply] by simp

lemma update_one_upsert_found:
  "find_one flt coll = Some d \<Longrightarrow> update_one_upsert flt upd new coll = update_one flt upd coll"
  by (simp add: update_one_upsert_def)

text \<open>What a call of the body leaves: the collection as it was, with an error; or the
  session found, replaced by itself with the title assigned and the two messages appended.\<close>

lemma send_message_body_cases:
  assumes "send_message_body st env uid sid message audio img = (r, st')"
  shows "(store st' = store st \<and> (\<exists>x. r = Inl x)) \<or>
         (\<exists>sess text st1 image_data st2 c st3.
            find_fault env = None \<and> update_fault env = None \<and>
            find_one (session_filter sid uid) (store st) = Some sess \<and>
            process_audio (logged FindOne st) env message (normalize_upload audio) = (Inr text, st1) \<and>
            (text \<noteq> [] \<or> normalize_upload img \<noteq> None) \<and>
            process_image (normalize_upload img) = Inr image_data \<and>
            st2 = snd (assign_title st1 (messages sess = []) text (title_reply env) (title sess)) \<and>
            chat_completion st2 (chat_reply env) = (Inr (Some c), st3) \<and>
            r = Inr (ChatResponse sid
                       (fst (assign_title st1 (messages sess = []) text (title_reply env) (title sess)))
                       c (now_assistant env)) \<and>
            st' = (logged UpdateOne st3)\<lparr>store := update_one (session_filter sid uid)
              (\<lambda>_. sess\<lparr>title := fst (assign_title st1 (messages sess = []) text
                                        (title_reply env) (title sess)),
                        messages := messages sess
                          @ [user_message_of text image_data (now_user env),
                             \<lparr>role = assistant, content = Str c, timestamp = now_assistant env\<rparr>],
                        updated_at := now_session env\<rparr>) (store st)\<rparr>)"
proof (cases "find_fault env")
  case (Some e)
  then show ?thesis using assms by (auto simp: send_message_body_def send_message_prepare_def send_message_write_def Let_def)
next
  case None
  note nf = this
  show ?thesis
  proof (cases "find_one (session_filter sid uid) (store st)")
    case None
    then show ?thesis using assms nf by (auto simp: send_message_body_def send_message_prepare_def send_message_write_def Let_def)
  next
    case (Some sess)
    note found = this
    obtain ra st1 where pa: "process_audio (logged FindOne st) env message (normalize_upload audio) = (ra, st1)"
      by (cases "process_audio (logged FindOne st) env message (normalize_upload audio)")
    have s1: "store st1 = store st"
      using process_audio_store [OF pa] by simp
    show ?thesis
    proof (cases ra)
      case (Inl x)
      then show ?thesis using assms nf found pa s1 by (auto simp: send_message_body_def send_message_prepare_def send_message_write_def Let_def)
    next
      case (Inr utext)
      note tx = this
      show ?thesis
      proof (cases "utext = [] \<and> normalize_upload img = None")
        case True
        then show ?thesis using assms nf found pa s1 tx
          by (auto simp: send_message_body_def send_message_prepare_def send_message_write_def Let_def)
      next
        case False
        note input = this
        show ?thesis
        proof (cases "process_image (normalize_upload img)")
          case (Inl x)
          then show ?thesis using assms nf found pa s1 tx input
            by (auto simp: send_message_body_def send_message_prepare_def send_message_write_def Let_def)
        next
          case (Inr image_data)
          note im = this
          obtain t st2 where at: "assign_title st1 (messages sess = []) utext (title_reply env) (title sess) = (t, st2)"
            by (cases "assign_title st1 (messages sess = []) utext (title_reply env) (title sess)")
          have s2: "store st2 = store st"
            using assign_title_store [OF at] s1 by simp
          obtain rc st3 where cc: "chat_completion st2 (chat_reply env) = (rc, st3)"
            by (cases "chat_completion st2 (chat_reply env)")
          have s3: "store st3 = store st"
            using chat_completion_store' [OF cc] s2 by simp
          show ?thesis
          proof (cases rc)
            case (Inl e)
            then show ?thesis using assms nf found pa tx input im at cc s3
              by (auto simp: send_message_body_def send_message_prepare_def send_message_write_def Let_def)
          next
            case (Inr content)
            note ok = this
            show ?thesis
            proof (cases content)
              case None
              then show ?thesis using assms nf found pa tx input im at cc s3 ok
                by (auto simp: send_message_body_def send_message_prepare_def
                      send_message_write_def Let_def)
            next
              case (Some c)
              note some = this
              show ?thesis
              proof (cases "update_fault env")
                case (Some e)
                then show ?thesis using assms nf found pa tx input im at cc s3 ok some
                  by (auto simp: send_message_body_def send_message_prepare_def
                        send_message_write_def Let_def)
              next
                case None
                have "find_one (session_filter sid uid) (store st3) = Some sess"
                  using found s3 by simp
                then show ?thesis using assms nf found pa tx input im at cc s3 ok some None
                  by (auto simp: send_message_body_def send_message_prepare_def
                        send_message_write_def Let_def update_one_upsert_found)
              qed
            qed
          qed
        qed
      qed
    qed
  qed
qed


lemma send_message_body_elim:
  assumes "send_message_body st env uid sid message audio img = (r, st')"
  obtains (failed) x where "r = Inl x" "store st' = store st"
  | (sent) sess utext st1 image_data c st3 new_title where
      "find_fault env = None" "update_fault env = None"
      "find_one (session_filter sid uid) (store st) = Some sess"
      "process_audio (logged FindOne st) env message (normalize_upload audio) = (Inr utext, st1)"
      "utext \<noteq> [] \<or> normalize_upload img \<noteq> None"
      "process_image (normalize_upload img) = Inr image_data"
      "new_title = fst (assign_title st1 (messages sess = []) utext (title_reply env) (title sess))"
      "chat_completion (snd (assign_title st1 (messages sess = []) utext (title_reply env)
                               (title sess))) (chat_reply env) = (Inr (Some c), st3)"
      "r = Inr (ChatResponse sid new_title c (now_assistant env))"
      "st' = (logged UpdateOne st3)\<lparr>store := update_one (session_filter sid uid)
              (\<lambda>_. sess\<lparr>title := new_title,
                        messages := messages sess
                          @ [user_message_of utext image_data (now_user env),
                             \<lparr>role = assistant, content = Str c, timestamp = now_assistant env\<rparr>],
                        updated_at := now_session env\<rparr>) (store st)\<rparr>"
  using send_message_body_cases [OF assms]
  by (elim disjE exE conjE) blast+

lemma grown_refl: "(\<And>d. ext d d) \<Longrightarrow> grown ext coll coll"
  by (simp add: grown_def list_all2_same)

lemma grown_insert_one: "(\<And>d. ext d d) \<Longrightarrow> grown ext coll (insert_one doc coll)"
  by (simp add: grown_def insert_one_def list_all2_same)

lemma length_update_one [simp]: "length (update_one flt upd coll) = length coll"
  by (induction coll) auto

lemma list_all2_update_one:
  "(\<And>d. ext d d) \<Longrightarrow> (\<And>d. flt d \<Longrightarrow> ext d (upd d)) \<Longrightarrow>
   list_all2 ext coll (update_one flt upd coll)"
  by (induction coll) (auto simp: list_all2_same)

lemma list_all2_update_one_found:
  "find_one flt coll = Some d \<Longrightarrow> ext d d' \<Longrightarrow> (\<And>x. ext x x) \<Longrightarrow>
   list_all2 ext coll (update_one flt (\<lambda>_. d') coll)"
  by (induction coll) (auto simp: find_one_def list_all2_same split: if_splits)

lemma grown_update_one:
  "(\<And>d. ext d d) \<Longrightarrow> (\<And>d. flt d \<Longrightarrow> ext d (upd d)) \<Longrightarrow>
   grown ext coll (update_one flt upd coll)"
  by (simp add: grown_def list_all2_update_one)

lemma grown_trans:
  assumes "\<And>a b c. ext a b \<Longrightarrow> ext b c \<Longrightarrow> ext a c"
    and "grown ext xs ys" "grown ext ys zs"
  shows "grown ext xs zs"
proof -
  have l1: "length xs \<le> length ys" and l2: "length ys \<le> length zs"
    using assms(2,3) by (auto simp: grown_def dest: list_all2_lengthD)
  have a: "list_all2 ext xs (take (length xs) ys)"
    using assms(2) by (simp add: grown_def)
  have "list_all2 ext (take (length xs) ys) (take (length xs) (take (length ys) zs))"
    using assms(3) unfolding grown_def by (rule list_all2_takeI)
  then have b: "list_all2 ext (take (length xs) ys) (take (length xs) zs)"
    using l1 by (simp add: min_def)
  show ?thesis unfolding grown_def
    using list_all2_trans [of ext ext ext, OF _ a b] assms(1) by blast
qed

lemma subseq_delete_one: "subseq (snd (delete_one flt coll)) coll"
  by (induction coll) (auto split: prod.splits)

lemma session_extends_refl [simp]: "session_extends d d"
  by (simp add: session_extends_def)

lemma group_extends_refl [simp]: "group_extends d d"
  by (simp add: group_extends_def)

lemma global_extends_refl [simp]: "global_extends d d"
  by (simp add: global_extends_def)

lemma group_extends_trans: "group_extends a b \<Longrightarrow> group_extends b c \<Longrightarrow> group_extends a c"
  by (auto simp: group_extends_def)

lemma send_message_store:
  "store (snd (send_message st env uid sid message audio img))
     = store (snd (send_message_body st env uid sid message audio img))"
  by (simp add: send_message_def send_message_handler_def split: prod.splits sum.splits)

lemma send_message_grown:
  "grown session_extends (store st) (store (snd (send_message st env uid sid message audio img)))"
proof -
  obtain r st' where b: "send_message_body st env uid sid message audio img = (r, st')"
    by (cases "send_message_body st env uid sid message audio img")
  from b show ?thesis
  proof (cases rule: send_message_body_elim)
    case (failed x)
    then show ?thesis by (simp add: send_message_store b grown_refl)
  next
    case (sent sess utext st1 image_data c st3 new_title)
    show ?thesis
      using list_all2_update_one_found [OF sent(3), of session_extends]
      by (simp add: send_message_store b sent(10) grown_def session_extends_def)
  qed
qed

lemma send_temp_message_body_cases:
  assumes "send_temp_message_body st env uid sid message audio img = (r, st')"
  shows "(store st' = store st \<and> (\<exists>x. r = Inl x)) \<or>
         (\<exists>sess utext st1 image_data new_title.
            store st sid = Some sess \<and> user_id sess = uid \<and>
            process_audio st env message (normalize_upload audio) = (Inr utext, st1) \<and>
            (utext \<noteq> [] \<or> normalize_upload img \<noteq> None) \<and>
            process_image (normalize_upload img) = Inr image_data \<and>
            new_title = fst (assign_title st1 (messages sess = []) utext (title_reply env) (title sess)) \<and>
            ((\<exists>e. fst (chat_completion ((snd (assign_title st1 (messages sess = []) utext
                          (title_reply env) (title sess)))) (chat_reply env)) = Inl e \<and>
                  r = Inl (HTTPException 500 (lit ''OpenAI API error: '' @ str_error e)) \<and>
                  store st' = (store st)(sid \<mapsto> sess\<lparr>title := new_title,
                     messages := messages sess @ [user_message_of utext image_data (now_user env)]\<rparr>)) \<or>
             (fst (chat_completion ((snd (assign_title st1 (messages sess = []) utext
                          (title_reply env) (title sess)))) (chat_reply env)) = Inr None \<and>
                  r = Inl (Error (Exception (validation_text env))) \<and>
                  store st' = (store st)(sid \<mapsto> sess\<lparr>title := new_title,
                     messages := messages sess @ [user_message_of utext image_data (now_user env)]\<rparr>)) \<or>
             (\<exists>c. fst (chat_completion ((snd (assign_title st1 (messages sess = []) utext
                          (title_reply env) (title sess)))) (chat_reply env)) = Inr (Some c) \<and>
                  r = Inr (ChatResponse sid new_title c (now_assistant env)) \<and>
                  store st' = (store st)(sid \<mapsto> sess\<lparr>title := new_title,
                     messages := messages sess
                       @ [user_message_of utext image_data (now_user env),
                          \<lparr>role = assistant, content = Str c, timestamp = now_assistant env\<rparr>],
                     updated_at := now_session env\<rparr>))))"
proof (cases "store st sid")
  case None
  then show ?thesis using assms by (auto simp: send_temp_message_body_def Let_def)
next
  case (Some sess)
  note found = this
  show ?thesis
  proof (cases "user_id sess = uid")
    case False
    then show ?thesis using assms found by (auto simp: send_temp_message_body_def Let_def)
  next
    case True
    note owner = this
    obtain ra st1 where pa: "process_audio st env message (normalize_upload audio) = (ra, st1)"
      by (cases "process_audio st env message (normalize_upload audio)")
    have s1: "store st1 = store st"
      using process_audio_store [OF pa] by simp
    show ?thesis
    proof (cases ra)
      case (Inl x)
      then show ?thesis using assms found owner pa s1
        by (auto simp: send_temp_message_body_def Let_def)
    next
      case (Inr utext)
      note tx = this
      show ?thesis
      proof (cases "utext = [] \<and> normalize_upload img = None")
        case True
        then show ?thesis using assms found owner pa s1 tx
          by (auto simp: send_temp_message_body_def Let_def)
      next
        case False
        note input = this
        show ?thesis
        proof (cases "process_image (normalize_upload img)")
          case (Inl x)
          then show ?thesis using assms found owner pa s1 tx input
            by (auto simp: send_temp_message_body_def Let_def)
        next
          case (Inr image_data)
          note im = this
          obtain t st2 where at: "assign_title st1 (messages sess = []) utext (title_reply env) (title sess) = (t, st2)"
            by (cases "assign_title st1 (messages sess = []) utext (title_reply env) (title sess)")
          have s2: "store st2 = store st"
            using assign_title_store [OF at] s1 by simp
          let ?cs = "sess\<lparr>title := t,
                     messages := messages sess @ [user_message_of utext image_data (now_user env)]\<rparr>"
          let ?st2 = "st2\<lparr>store := (store st2)(sid \<mapsto> ?cs)\<rparr>"
          obtain rc st3 where cc: "chat_completion ?st2 (chat_reply env) = (rc, st3)"
            by (cases "chat_completion ?st2 (chat_reply env)")
          have s3: "store st3 = (store st)(sid \<mapsto> ?cs)"
            using chat_completion_store' [OF cc] s2 by simp
          have rc: "fst (chat_completion st2 (chat_reply env)) = rc"
            using cc chat_completion_result [of ?st2 "chat_reply env"]
              chat_completion_result [of st2 "chat_reply env"] by simp
          show ?thesis
          proof (cases rc)
            case (Inl e)
            then show ?thesis using assms found owner pa tx input im at cc s3 rc
              by (auto simp: send_temp_message_body_def Let_def)
          next
            case (Inr content)
            then show ?thesis using assms found owner pa tx input im at cc s3 rc
              by (cases content) (auto simp: send_temp_message_body_def Let_def)
          qed
        qed
      qed
    qed
  qed
qed

lemma send_temp_message_store:
  "store (snd (send_temp_message st env uid sid message audio img))
     = store (snd (send_temp_message_body st env uid sid message audio img))"
  by (simp add: send_temp_message_def split: prod.splits sum.splits)

lemma assign_title_later': "ms \<noteq> [] \<Longrightarrow> fst (assign_title st (ms = []) utext reply old) = old"
  by (simp add: assign_title_def)

lemma send_temp_message_extends:
  assumes "store tst k = Some d"
  shows "\<exists>d'. store (snd (send_temp_message tst env uid sid message audio img)) k = Some d' \<and>
              session_extends d d' \<and>
              (messages d \<noteq> [] \<longrightarrow> title d' = title d \<and> messages d' \<noteq> [])"
proof -
  obtain r st' where b: "send_temp_message_body tst env uid sid message audio img = (r, st')"
    by (cases "send_temp_message_body tst env uid sid message audio img")
  show ?thesis
    using send_temp_message_body_cases [OF b] assms
    by (cases "k = sid")
       (auto simp: send_temp_message_store b session_extends_def assign_title_later)
qed

lemma grown_update_one_twice:
  assumes "\<And>d. ext d d" "\<And>d. flt d \<Longrightarrow> ext d (f (g d))" "\<And>d. flt d \<Longrightarrow> flt (g d)"
  shows "grown ext coll (update_one flt f (update_one flt g coll))"
proof -
  have "update_one flt f (update_one flt g coll) = update_one flt (f \<circ> g) coll"
    by (rule update_one_twice) (rule assms(3))
  then show ?thesis
    using grown_update_one [of ext flt "f \<circ> g" coll] assms(1,2) by simp
qed

lemma group_send_message_grown:
  "grown group_extends (groups (store st))
     (groups (store (snd (group_send_message st env gid sid uid text_content))))"
  by (simp add: group_send_message_def case_prod_unfold Let_def validate_session_def
        find_group_def update_group_def grown_refl grown_update_one grown_update_one_twice
        group_extends_def
        split: option.splits sum.splits)

lemma join_group_grown:
  "grown group_extends (groups (store st)) (groups (store (snd (join_group st env uid sid gid))))"
  by (simp add: join_group_def case_prod_unfold Let_def validate_session_def
        find_group_def update_group_def grown_refl grown_update_one group_extends_def
        split: option.splits sum.splits)

lemma create_group_grown:
  "grown group_extends (groups (store st))
     (groups (store (snd (create_group st env uid sid group_name group_type))))"
  by (simp add: create_group_def case_prod_unfold Let_def validate_session_def
        grown_refl grown_insert_one
        split: option.splits sum.splits)

lemma get_group_history_same:
  "store (snd (get_group_history st fault gid)) = store st"
  by (simp add: get_group_history_def case_prod_unfold Let_def find_group_def
        split: option.splits sum.splits)

lemma delete_group_subseq:
  "subseq (groups (store (snd (delete_group st f1 f2 gid uid)))) (groups (store st))"
  by (simp add: delete_group_def case_prod_unfold Let_def find_group_def subseq_delete_one
        split: option.splits sum.splits)

lemma process_chat_interaction_grown:
  "grown global_extends (store st)
     (store (snd (process_chat_interaction st env sid uid message language)))"
  by (simp add: process_chat_interaction_def case_prod_unfold Let_def get_session_def
        add_interaction_def grown_refl grown_update_one global_extends_def
        split: option.splits sum.splits)

lemma add_interaction_grown:
  "grown global_extends (store st) (store (snd (add_interaction st fault sid interaction)))"
  by (simp add: add_interaction_def Let_def grown_refl grown_update_one global_extends_def
        split: option.splits)

lemma get_history_same: "store (snd (get_history st fault sid)) = store st"
  by (simp add: get_history_def case_prod_unfold Let_def get_session_def
        split: option.splits sum.splits)

lemma gl_delete_session_subseq:
  "subseq (store (snd (gl_delete_session st fault sid))) (store st)"
  using subseq_delete_one [of "\<lambda>d. gl_session_id d = sid" "store st"]
  by (simp add: gl_delete_session_def case_prod_unfold Let_def split: option.splits)

lemma delete_session_subseq:
  "subseq (store (snd (delete_session st fault sid uid))) (store st)"
  using subseq_delete_one [of "session_filter sid uid" "store st"]
  by (simp add: delete_session_def case_prod_unfold Let_def split: option.splits)

lemma create_session_grown:
  "grown session_extends (store st) (store (snd (create_session st env uid)))"
  by (simp add: create_session_def Let_def grown_refl grown_insert_one split: option.splits)

lemma get_session_history_same:
  "store (snd (get_session_history st fault sid uid)) = store st"
  by (simp add: get_session_history_def Let_def split: option.splits)

lemma find_one_update_one_other:
  "find_one flt coll = Some d \<Longrightarrow> \<not> flt0 d \<Longrightarrow> \<not> flt0 d' \<Longrightarrow>
   find_one flt0 (update_one flt (\<lambda>_. d') coll) = find_one flt0 coll"
  by (induction coll) (auto simp: find_one_def split: if_splits)

text \<open>The handler from the point where the session is found and the input is read.\<close>

lemma send_message_after_title:
  assumes "find_fault env = None"
    and "find_one (session_filter sid uid) (store st) = Some sess"
    and "process_audio (logged FindOne st) env message (normalize_upload audio) = (Inr utext, st1)"
    and "utext \<noteq> [] \<or> normalize_upload img \<noteq> None"
    and "process_image (normalize_upload img) = Inr image_data"
    and "assign_title st1 (messages sess = []) utext (title_reply env) (title sess) = (t, st2)"
  shows "send_message st env uid sid message audio img =
     (case chat_completion st2 (chat_reply env) of
        (Inl e, st3) \<Rightarrow>
          (Inl (HTTPException 500 (lit ''OpenAI API error: '' @ str_error e)), st3)
      | (Inr None, st3) \<Rightarrow>
          (Inl (HTTPException 500 (lit ''Internal server error: '' @ validation_text env)), st3)
      | (Inr (Some c), st3) \<Rightarrow>
          (case update_fault env of
             Some e \<Rightarrow>
               (Inl (HTTPException 500 (lit ''Internal server error: '' @ str_error e)),
                logged UpdateOne st3)
           | None \<Rightarrow>
               (Inr (ChatResponse sid t c (now_assistant env)),
                (logged UpdateOne st3)\<lparr>store := update_one (session_filter sid uid)
                  (\<lambda>_. sess\<lparr>title := t,
                        messages := messages sess
                          @ [user_message_of utext image_data (now_user env),
                             \<lparr>role = assistant, content = Str c, timestamp = now_assistant env\<rparr>],
                        updated_at := now_session env\<rparr>) (store st)\<rparr>)))"
proof -
  obtain rc st3 where cc: "chat_completion st2 (chat_reply env) = (rc, st3)"
    by (cases "chat_completion st2 (chat_reply env)")
  have s3: "store st3 = store st"
    using chat_completion_store' [OF cc] assign_title_store [OF assms(6)]
      process_audio_store [OF assms(3)] by simp
  have f3: "find_one (session_filter sid uid) (store st3) = Some sess"
    using assms(2) s3 by simp
  show ?thesis
    using assms cc s3 f3
    by (auto simp: send_message_def send_message_handler_def send_message_body_def send_message_prepare_def send_message_write_def Let_def reraise_def
          update_one_upsert_found split: sum.splits option.splits)
qed

lemma assign_title_failure:
  assumes "utext \<noteq> []"
    and "reply = Inl m \<or> reply = Inr None \<or> fst (generate_title st utext reply) = Inl e"
  shows "fst (assign_title st True utext reply old)
           = strip (take 40 utext) @ (if length utext > 40 then lit ''...'' else [])"
  using assms
  by (auto simp: assign_title_def generate_title_def Let_def
           split: sum.splits option.splits prod.splits if_splits)


lemma session_filter_same:
  "session_filter sid uid d \<Longrightarrow> session_filter sid0 uid0 d \<Longrightarrow> sid0 = sid \<and> uid0 = uid"
  by (simp add: session_filter_def)

lemma send_message_keeps_title:
  assumes "find_one (session_filter sid0 uid0) (store st) = Some s0" and "messages s0 \<noteq> []"
  shows "\<exists>s1. find_one (session_filter sid0 uid0)
                (store (snd (send_message st env uid sid message audio img))) = Some s1 \<and>
              title s1 = title s0 \<and> messages s1 \<noteq> []"
proof -
  obtain r st' where b: "send_message_body st env uid sid message audio img = (r, st')"
    by (cases "send_message_body st env uid sid message audio img")
  from b show ?thesis
  proof (cases rule: send_message_body_elim)
    case (failed x)
    then show ?thesis using assms by (simp add: send_message_store b)
  next
    case (sent sess utext st1 image_data c st3 new_title)
    let ?cs = "sess\<lparr>title := new_title,
                 messages := messages sess
                   @ [user_message_of utext image_data (now_user env),
                      \<lparr>role = assistant, content = Str c, timestamp = now_assistant env\<rparr>],
                 updated_at := now_session env\<rparr>"
    have flt: "session_filter sid uid sess"
      using find_one_prop [OF sent(3)] .
    have st': "store (snd (send_message st env uid sid message audio img))
                 = update_one (session_filter sid uid) (\<lambda>_. ?cs) (store st)"
      by (simp add: send_message_store b sent(10))
    show ?thesis
    proof (cases "session_filter sid0 uid0 sess")
      case True
      then have same: "sid0 = sid \<and> uid0 = uid"
        using flt session_filter_same by blast
      then have s0: "s0 = sess"
        using assms(1) sent(3) by simp
      have "find_one (session_filter sid uid) (update_one (session_filter sid uid) (\<lambda>_. ?cs) (store st))
              = Some ?cs"
        using find_one_update_one [OF sent(3), of "\<lambda>_. ?cs"] flt
        by (simp add: session_filter_def)
      moreover have "new_title = title s0"
        using assms(2) s0 by (simp add: sent(7) assign_title_later)
      ultimately show ?thesis
        using same by (simp add: st')
    next
      case False
      then have no: "\<not> session_filter sid0 uid0 ?cs"
        by (simp add: session_filter_def)
      have "find_one (session_filter sid0 uid0)
                   (update_one (session_filter sid uid) (\<lambda>_. ?cs) (store st))
                 = find_one (session_filter sid0 uid0) (store st)"
        by (rule find_one_update_one_other [where ?flt0.0 = "session_filter sid0 uid0",
              OF sent(3) False no])
      then show ?thesis
        using assms by (simp add: st')
    qed
  qed
qed

lemma run_messages_keeps_title:
  "find_one (session_filter sid0 uid0) (store st) = Some s0 \<Longrightarrow> messages s0 \<noteq> [] \<Longrightarrow>
   \<exists>s1. find_one (session_filter sid0 uid0) (store (run_messages st reqs)) = Some s1 \<and>
        title s1 = title s0 \<and> messages s1 \<noteq> []"
proof (induction reqs arbitrary: st s0)
  case Nil
  then show ?case by simp
next
  case (Cons rq reqs)
  let ?st = "snd (send_message st (rq_env rq) (rq_user_id rq) (rq_session_id rq) (rq_message rq)
                    (rq_audio rq) (rq_image rq))"
  obtain s1 where s1: "find_one (session_filter sid0 uid0) (store ?st) = Some s1"
      "title s1 = title s0" "messages s1 \<noteq> []"
    using send_message_keeps_title [OF Cons.prems] by blast
  from Cons.IH [OF s1(1) s1(3)] s1(2) show ?case
    by auto
qed

lemma run_temp_messages_keeps_title:
  "store st k = Some s0 \<Longrightarrow> messages s0 \<noteq> [] \<Longrightarrow>
   \<exists>s1. store (run_temp_messages st reqs) k = Some s1 \<and>
        title s1 = title s0 \<and> messages s1 \<noteq> []"
proof (induction reqs arbitrary: st s0)
  case Nil
  then show ?case by simp
next
  case (Cons rq reqs)
  let ?st = "snd (send_temp_message st (rq_env rq) (rq_user_id rq) (rq_session_id rq) (rq_message rq)
                    (rq_audio rq) (rq_image rq))"
  obtain s1 where s1: "store ?st k = Some s1"
      "title s1 = title s0" "messages s1 \<noteq> []"
    using send_temp_message_extends [OF Cons.prems(1)] Cons.prems(2) by blast
  from Cons.IH [OF s1(1) s1(3)] s1(2) show ?case
    by auto
qed

lemma fst_assign_title:
  "fst (assign_title st first utext reply old) =
     (if first \<and> utext \<noteq> [] then
        (case fst (generate_title st utext reply) of
           Inr generated_title \<Rightarrow> generated_title
         | Inl e \<Rightarrow> strip (take 40 utext) @ (if length utext > 40 then lit ''...'' else []))
      else old)"
  by (auto simp: assign_title_def split: prod.splits sum.splits)


lemmas ex_defs = ex_chat_state_def ex_session_def ex_message_env_def ex_service_def
  ex_long_message_def ex_request_def ex_image_def ex_create_env_def

lemmas run_defs = send_message_def send_message_handler_def send_message_body_def send_message_prepare_def send_message_write_def process_audio_def process_image_def
  assign_title_def generate_title_def ensure_async_initialized_def chat_completion_def
  user_message_of_def logged_def find_one_def session_filter_def update_one_upsert_def
  reraise_def strip_def strip_with_def py_isspace_def validate_image_url_def Let_def


subsection \<open>Session lookup\<close>

text \<open>
  C1 (as amended). In the chat routes, when no stored document matches the pair
  (session id, owner id) and the database call does not raise, fetching the history,
  sending a message and deleting all fail with the not-found error. In the
  global-language service the lookup is by session id alone: its operations fail with
  not-found exactly when no stored document has that session id, whoever asks. In
  temporary chat an unknown session id gives not-found (404) and a known session of
  another owner gives 403.
\<close>

theorem lookup_not_found:
  "(find_one (session_filter sid uid) (store st) = None \<longrightarrow>
      fst (get_session_history st None sid uid) = Inl not_found \<and>
      (find_fault env = None \<longrightarrow>
         fst (send_message st env uid sid message audio img) = Inl not_found) \<and>
      fst (delete_session st None sid uid) = Inl not_found) \<and>
   (fst (get_history gst None sid) = Inl (HTTPException 404 (lit ''Session not found''))
      \<longleftrightarrow> find_one (\<lambda>d. gl_session_id d = sid) (store gst) = None) \<and>
   (session_fault genv = None \<longrightarrow>
      (fst (process_chat_interaction gst genv sid uid message language)
         = Inl (HTTPException 404 (lit ''Session not found''))
       \<longleftrightarrow> find_one (\<lambda>d. gl_session_id d = sid) (store gst) = None)) \<and>
   (fst (gl_delete_session gst None sid) = Inl (HTTPException 404 (lit ''Session not found''))
      \<longleftrightarrow> find_one (\<lambda>d. gl_session_id d = sid) (store gst) = None) \<and>
   (store tst sid = None \<longrightarrow>
      (\<exists>d. fst (send_temp_message tst env uid sid message audio img)
             = Inl (HTTPException 404 d))) \<and>
   (\<forall>s. store tst sid = Some s \<and> user_id s \<noteq> uid \<longrightarrow>
      fst (send_temp_message tst env uid sid message audio img)
        = Inl (HTTPException 403 (lit ''Session does not belong to user'')))"
  apply (intro conjI impI allI)
  subgoal by (simp add: get_session_history_def Let_def reraise_def not_found_def)
  subgoal by (simp add: send_message_def send_message_handler_def send_message_body_def send_message_prepare_def send_message_write_def Let_def reraise_def not_found_def)
  subgoal
    by (simp add: delete_session_def Let_def reraise_def not_found_def find_one_None_delete_one)
  subgoal by (auto simp: get_history_def get_session_def Let_def split: option.splits)
  subgoal
    by (auto simp: process_chat_interaction_def get_session_def add_interaction_def Let_def
             split: option.splits prod.splits sum.splits)
  subgoal
    by (auto simp: gl_delete_session_def Let_def split: option.splits prod.splits if_splits
             dest!: delete_one_result)
  subgoal by (simp add: send_temp_message_def send_temp_message_body_def Let_def reraise_def)
  subgoal by (auto simp add: send_temp_message_def send_temp_message_body_def Let_def reraise_def)
  done

theorem lookup_not_found_witness:
  "find_one (session_filter (lit ''s1'') (lit ''bob'')) (store ex_chat_state) = None \<and>
   find_fault ex_message_env = None \<and> session_fault ex_service_env = None \<and>
   fst (get_session_history ex_chat_state None (lit ''s1'') (lit ''bob'')) = Inl not_found \<and>
   fst (send_message ex_chat_state ex_message_env (lit ''bob'') (lit ''s1'') (lit ''hi'')
          NoFile NoFile) = Inl not_found \<and>
   fst (delete_session ex_chat_state None (lit ''s1'') (lit ''bob'')) = Inl not_found \<and>
   store ex_temp_state (lit ''s1'') = Some ex_session \<and> user_id ex_session \<noteq> lit ''bob'' \<and>
   fst (send_temp_message ex_temp_state ex_message_env (lit ''bob'') (lit ''s1'') (lit ''hi'')
          NoFile NoFile) = Inl (HTTPException 403 (lit ''Session does not belong to user'')) \<and>
   store ex_temp_state (lit ''s2'') = None \<and>
   fst (send_temp_message ex_temp_state ex_message_env (lit ''bob'') (lit ''s2'') (lit ''hi'')
          NoFile NoFile)
     = Inl (HTTPException 404
              (lit ''Temporary session not found (it may have been cleared on server restart)''))"
  using lookup_not_found [of "lit ''s1''" "lit ''bob''" ex_chat_state ex_message_env "lit ''hi''"
          NoFile NoFile ex_global_state ex_service_env "lit ''English''" ex_temp_state]
        lookup_not_found [of "lit ''s2''" "lit ''bob''" ex_chat_state ex_message_env "lit ''hi''"
          NoFile NoFile ex_global_state ex_service_env "lit ''English''" ex_temp_state]
  by (simp add: ex_chat_state_def ex_session_def ex_message_env_def ex_service_env_def
        ex_temp_state_def find_one_def session_filter_def lit_def
        send_temp_message_def send_temp_message_body_def reraise_def)

text \<open>
  In the global-language service a message sent by \<open>bob\<close> to the session of \<open>alice\<close>
  succeeds, although no stored document matches the pair.
\<close>

theorem lookup_ignores_owner_counterexample:
  "map gl_session_id (store ex_global_state) = [lit ''s1''] \<and>
   map gl_user_id (store ex_global_state) = [lit ''alice''] \<and>
   fst (process_chat_interaction ex_global_state ex_service_env (lit ''s1'') (lit ''bob'')
          (lit ''hi'') (lit ''English'')) = Inr (lit ''Hello'', lit ''English'')"
  by (simp add: ex_global_state_def ex_service_env_def ex_service_def find_one_def lit_def
        process_chat_interaction_def get_session_def chat_completion_def
        ensure_async_initialized_def add_interaction_def Let_def)

subsection \<open>Titles\<close>

text \<open>
  C10 (as amended). When the service has an API key (or its client already exists),
  \<open>generate_title\<close> returns a string of at most 50 characters on every path: the input
  stripped when it has at most 40 characters; otherwise the generated title, cleaned,
  and cut to 47 characters plus an ellipsis when longer than 50; and, when the
  generation fails (the call raises, or its answer carries no text), the first 40
  characters of the input, stripped, plus an ellipsis.
  Without a key it raises before any of this.
\<close>

theorem generate_title_at_most_50:
  assumes "OPENAI_API_KEY (service st) \<noteq> [] \<or> async_initialized (service st)"
  shows "\<exists>t. fst (generate_title st first_message reply) = Inr t \<and> length t \<le> 50 \<and>
           (length first_message \<le> 40 \<longrightarrow> t = strip first_message) \<and>
           (length first_message > 40 \<longrightarrow>
              (case reply of
                 Inl m \<Rightarrow> t = strip (take 40 first_message) @ lit ''...''
               | Inr None \<Rightarrow> t = strip (take 40 first_message) @ lit ''...''
               | Inr (Some c) \<Rightarrow>
                   (let g = strip (strip_chars (lit [CHR 0x27])
                                    (strip_chars (lit [CHR 0x22]) (strip c)))
                    in t = (if length g > 50 then take 47 g @ lit ''...'' else g))))"
  using assms length_strip[of first_message] length_strip[of "take 40 first_message"]
  by (auto simp: generate_title_def ensure_async_initialized_def Let_def length_lit
           split: sum.splits option.splits)

theorem generate_title_at_most_50_witness:
  "OPENAI_API_KEY (service ex_chat_state) \<noteq> [] \<and>
   fst (generate_title ex_chat_state (lit ''  plan a trip  '') (Inl [])) = Inr (lit ''plan a trip'') \<and>
   length ex_long_message > 40 \<and>
   fst (generate_title ex_chat_state ex_long_message (Inr (Some (lit ([CHR 0x22] @ ''Trip plan '' @ [CHR 0x22])))))
     = Inr (lit ''Trip plan'') \<and>
   fst (generate_title ex_chat_state ex_long_message (Inr None))
     = Inr (strip (take 40 ex_long_message) @ lit ''...'')"
  using generate_title_at_most_50 [of ex_chat_state "lit ''  plan a trip  ''" "Inl []"]
    generate_title_at_most_50 [of ex_chat_state ex_long_message
       "Inr (Some (lit ([CHR 0x22] @ ''Trip plan '' @ [CHR 0x22])))"]
    generate_title_at_most_50 [of ex_chat_state ex_long_message "Inr None"]
  by (simp add: ex_chat_state_def ex_service_def ex_long_message_def lit_def strip_def
        strip_with_def strip_chars_def py_isspace_def Let_def)

theorem generate_title_unconfigured_counterexample:
  "fst (generate_title (ex_chat_state\<lparr>service := \<lparr>OPENAI_API_KEY = [], async_initialized = False\<rparr>\<rparr>)
          (lit ''hello'') (Inr (Some (lit ''Greeting'')))) = Inl (ValueError api_key_missing)"
  by (simp add: generate_title_def ensure_async_initialized_def)


subsection \<open>Deleting a session\<close>

text \<open>
  C6. When exactly one stored document matches the pair (session id, owner id), the
  first delete answers with the success response and the second fails with not-found.
  More generally a delete (whose database call does not raise) fails with not-found
  exactly when no stored document matches. The same holds in the global-language
  service, whose delete takes the session id alone.
\<close>

theorem delete_twice:
  "(length (filter (session_filter sid uid) (store st)) = 1 \<longrightarrow>
      fst (delete_session st None sid uid) = Inr (lit ''Session deleted successfully'', sid) \<and>
      fst (delete_session (snd (delete_session st None sid uid)) None sid uid) = Inl not_found) \<and>
   (fst (delete_session st None sid uid) = Inl not_found
      \<longleftrightarrow> find_one (session_filter sid uid) (store st) = None) \<and>
   (length (filter (\<lambda>d. gl_session_id d = sid) (store gst)) = 1 \<longrightarrow>
      fst (gl_delete_session gst None sid) = Inr () \<and>
      fst (gl_delete_session (snd (gl_delete_session gst None sid)) None sid)
        = Inl (HTTPException 404 (lit ''Session not found''))) \<and>
   (fst (gl_delete_session gst None sid) = Inl (HTTPException 404 (lit ''Session not found''))
      \<longleftrightarrow> find_one (\<lambda>d. gl_session_id d = sid) (store gst) = None)"
proof (intro conjI impI)
  assume a: "length (filter (session_filter sid uid) (store st)) = 1"
  obtain n coll where d: "delete_one (session_filter sid uid) (store st) = (n, coll)"
    by (cases "delete_one (session_filter sid uid) (store st)")
  from delete_one_unique [OF a] d have n: "n = 1" and f: "find_one (session_filter sid uid) coll = None"
    by simp_all
  show "fst (delete_session st None sid uid) = Inr (lit ''Session deleted successfully'', sid)"
    by (simp add: delete_session_def Let_def d n)
  show "fst (delete_session (snd (delete_session st None sid uid)) None sid uid) = Inl not_found"
    by (simp add: delete_session_def Let_def d n find_one_None_delete_one [OF f] reraise_def not_found_def)
next
  show "fst (delete_session st None sid uid) = Inl not_found
      \<longleftrightarrow> find_one (session_filter sid uid) (store st) = None"
    by (auto simp: delete_session_def Let_def reraise_def not_found_def
             split: prod.splits if_splits dest!: delete_one_result)
next
  assume a: "length (filter (\<lambda>d. gl_session_id d = sid) (store gst)) = 1"
  obtain n coll where d: "delete_one (\<lambda>d. gl_session_id d = sid) (store gst) = (n, coll)"
    by (cases "delete_one (\<lambda>d. gl_session_id d = sid) (store gst)")
  from delete_one_unique [OF a] d have n: "n = 1" and f: "find_one (\<lambda>d. gl_session_id d = sid) coll = None"
    by simp_all
  show "fst (gl_delete_session gst None sid) = Inr ()"
    by (simp add: gl_delete_session_def Let_def d n)
  show "fst (gl_delete_session (snd (gl_delete_session gst None sid)) None sid)
        = Inl (HTTPException 404 (lit ''Session not found''))"
    by (simp add: gl_delete_session_def Let_def d n find_one_None_delete_one [OF f])
next
  show "fst (gl_delete_session gst None sid) = Inl (HTTPException 404 (lit ''Session not found''))
      \<longleftrightarrow> find_one (\<lambda>d. gl_session_id d = sid) (store gst) = None"
    by (auto simp: gl_delete_session_def Let_def split: prod.splits if_splits dest!: delete_one_result)
qed

theorem delete_twice_witness:
  "length (filter (session_filter (lit ''s1'') (lit ''alice'')) (store ex_chat_state)) = 1 \<and>
   fst (delete_session ex_chat_state None (lit ''s1'') (lit ''alice''))
     = Inr (lit ''Session deleted successfully'', lit ''s1'') \<and>
   fst (delete_session (snd (delete_session ex_chat_state None (lit ''s1'') (lit ''alice'')))
          None (lit ''s1'') (lit ''alice'')) = Inl not_found \<and>
   length (filter (\<lambda>d. gl_session_id d = lit ''s1'') (store ex_global_state)) = 1 \<and>
   fst (gl_delete_session ex_global_state None (lit ''s1'')) = Inr () \<and>
   fst (gl_delete_session (snd (gl_delete_session ex_global_state None (lit ''s1''))) None (lit ''s1''))
     = Inl (HTTPException 404 (lit ''Session not found''))"
  using delete_twice [of "lit ''s1''" "lit ''alice''" ex_chat_state ex_global_state]
  by (simp add: ex_chat_state_def ex_session_def ex_global_state_def session_filter_def lit_def)


subsection \<open>Creating a session\<close>

text \<open>
  C8 (as amended). Every create-session call whose insert does not raise returns the
  identifier that \<open>uuid4\<close> drew for that call; the state plays no part in it. So the
  identifiers a sequence of calls returns are pairwise distinct exactly when the draws
  are.
\<close>

lemma run_calls_map:
  "(\<And>st env uid. (env, uid) \<in> set reqs \<Longrightarrow> fst (f st env uid) = g (env, uid))
   \<Longrightarrow> run_calls f st reqs = map g reqs"
proof (induction reqs arbitrary: st)
  case Nil
  show ?case by simp
next
  case (Cons req reqs)
  obtain env uid where req: "req = (env, uid)" by (cases req)
  have hd: "fst (f st env uid) = g (env, uid)"
    using Cons.prems [of env uid st] req by simp
  have tl: "run_calls f (snd (f st env uid)) reqs = map g reqs"
    using Cons.IH Cons.prems by simp
  show ?case using hd tl
    by (cases "f st env uid") (simp add: req)
qed

theorem create_session_returns_draw:
  assumes "\<forall>req \<in> set reqs. insert_fault (fst req) = None"
  shows "run_calls create_session st reqs
           = map (\<lambda>(env, uid). Inr (SessionCreateResponse (uuid4 env) uid (lit ''New Chat'')
                    (lit ''Session created successfully'') (now_created env))) reqs \<and>
         run_calls group_create_session gst reqs = map (\<lambda>(env, uid). Inr (uuid4 env)) reqs \<and>
         run_calls gl_create_session lst reqs = map (\<lambda>(env, uid). Inr (uuid4 env)) reqs \<and>
         run_calls create_temp_session tst reqs
           = map (\<lambda>(env, uid). Inr (SessionCreateResponse (uuid4 env) uid (lit ''Temporary Chat'')
                    (lit ''Temporary session created successfully'') (now_created env))) reqs \<and>
         (distinct (map issued_id (run_calls create_session st reqs))
            \<longleftrightarrow> distinct (map (\<lambda>req. uuid4 (fst req)) reqs))"
proof -
  have nf: "\<And>env uid. (env, uid) \<in> set reqs \<Longrightarrow> insert_fault env = None"
    using assms by auto
  have chat: "run_calls create_session st reqs
           = map (\<lambda>(env, uid). Inr (SessionCreateResponse (uuid4 env) uid (lit ''New Chat'')
                    (lit ''Session created successfully'') (now_created env))) reqs"
    by (rule run_calls_map) (simp add: create_session_def Let_def nf)
  have grp: "run_calls group_create_session gst reqs = map (\<lambda>(env, uid). Inr (uuid4 env)) reqs"
    by (rule run_calls_map) (simp add: group_create_session_def Let_def nf)
  have gl: "run_calls gl_create_session lst reqs = map (\<lambda>(env, uid). Inr (uuid4 env)) reqs"
    by (rule run_calls_map) (simp add: gl_create_session_def Let_def nf)
  have temp: "run_calls create_temp_session tst reqs
           = map (\<lambda>(env, uid). Inr (SessionCreateResponse (uuid4 env) uid (lit ''Temporary Chat'')
                    (lit ''Temporary session created successfully'') (now_created env))) reqs"
    by (rule run_calls_map) (simp add: create_temp_session_def Let_def)
  have ids: "map issued_id (run_calls create_session st reqs)
               = map Some (map (\<lambda>req. uuid4 (fst req)) reqs)"
    by (simp add: chat split_def)
  have some: "distinct (map Some ys) = distinct ys" for ys :: "str list"
    by (simp add: distinct_map)
  have "distinct (map issued_id (run_calls create_session st reqs))
          \<longleftrightarrow> distinct (map (\<lambda>req. uuid4 (fst req)) reqs)"
    unfolding ids by (rule some)
  with chat grp gl temp show ?thesis by blast
qed

theorem create_session_returns_draw_witness:
  "insert_fault ex_create_env = None \<and>
   insert_fault (ex_create_env\<lparr>uuid4 := lit ''u2''\<rparr>) = None \<and>
   map issued_id (run_calls create_session ex_chat_state
     [(ex_create_env, lit ''alice''), (ex_create_env\<lparr>uuid4 := lit ''u2''\<rparr>, lit ''bob'')])
     = [Some (lit ''u1''), Some (lit ''u2'')]"
  using create_session_returns_draw [of
          "[(ex_create_env, lit ''alice''), (ex_create_env\<lparr>uuid4 := lit ''u2''\<rparr>, lit ''bob'')]"
          ex_chat_state]
  by (simp add: ex_create_env_def)

theorem create_session_repeat_counterexample:
  "run_calls create_session ex_chat_state [(ex_create_env, lit ''alice''), (ex_create_env, lit ''bob'')]
     = [Inr (SessionCreateResponse (lit ''u1'') (lit ''alice'') (lit ''New Chat'')
               (lit ''Session created successfully'') 5),
        Inr (SessionCreateResponse (lit ''u1'') (lit ''bob'') (lit ''New Chat'')
               (lit ''Session created successfully'') 5)]"
  by (simp add: create_session_def ex_create_env_def Let_def)



subsection \<open>Joining a group\<close>






subsection \<open>Sending a message to a group\<close>

text \<open>
  The send up to the point where the reply message is built: for a member of an existing
  group who presents a stored (session id, user id) pair, when the reads and the first
  write do not raise, the user's message is stored and the request to the external API is
  made (if the client can be created). What is left is decided by the text of the reply.
\<close>

lemma group_send_message_after_first_write:
  fixes env :: service_env and uid text_content :: str and st :: group_state
  defines "um \<equiv> \<lparr>message_id = first_uuid4 env, gm_user_id = uid, gm_content = text_content,
                gm_timestamp = first_now env, is_ai = False\<rparr>"
  assumes "session_fault env = None" "group_fault env = None"
    and "find_one (\<lambda>d. gcs_session_id d = sid \<and> gcs_user_id d = uid)
           (group_chat_sessions (store st)) = Some s"
    and "find_one (\<lambda>g. group_id g = gid) (groups (store st)) = Some g"
    and "uid \<in> set (members g)"
    and "first_write_fault env = None"
  shows "\<exists>st2.
           find_one (\<lambda>g. group_id g = gid) (groups (store st2))
             = Some (g\<lparr>group_messages := group_messages g @ [um]\<rparr>) \<and>
           calls st2 = calls st @ [FindOne, FindOne, UpdateOne]
             @ (case ensure_async_initialized (service st) of
                  Inl _ \<Rightarrow> [] | Inr _ \<Rightarrow> [ChatCompletion]) \<and>
           group_send_message st env gid sid uid text_content =
             (case (case fst (chat_completion st (ai_reply env)) of
                      Inr c \<Rightarrow> c
                    | Inl e \<Rightarrow> Some (lit
                        ''I'm having trouble connecting right now. Please try again later.'')) of
                None \<Rightarrow> (Inl (Error (Exception (service_validation_text env))), st2)
              | Some reply_text \<Rightarrow>
                  (case update_group st2 (second_write_fault env) gid
                          (\<lambda>g. g\<lparr>group_messages := group_messages g @
                              [\<lparr>message_id = second_uuid4 env, gm_user_id = lit ''AI'',
                                gm_content = reply_text, gm_timestamp = second_now env,
                                is_ai = True\<rparr>]\<rparr>) of
                     (Inl x, st3) \<Rightarrow> (Inl x, st3)
                   | (Inr _, st3) \<Rightarrow>
                       (Inr \<lparr>message_id = second_uuid4 env, gm_user_id = lit ''AI'',
                             gm_content = reply_text, gm_timestamp = second_now env,
                             is_ai = True\<rparr>, st3)))"
proof -
  let ?flt = "\<lambda>g. group_id g = gid"
  let ?st1 = "(logged UpdateOne (logged FindOne (logged FindOne st)))
                \<lparr>store := (store st)\<lparr>groups := update_one ?flt
                   (\<lambda>g. g\<lparr>group_messages := group_messages g @ [um]\<rparr>) (groups (store st))\<rparr>\<rparr>"
  have gid: "group_id g = gid"
    using find_one_prop [OF assms(5)] .
  have f1: "find_one ?flt (groups (store ?st1)) = Some (g\<lparr>group_messages := group_messages g @ [um]\<rparr>)"
    using find_one_update_one [OF assms(5), of "\<lambda>g. g\<lparr>group_messages := group_messages g @ [um]\<rparr>"] gid
    by simp
  have cc: "fst (chat_completion ?st1 (ai_reply env)) = fst (chat_completion st (ai_reply env))"
    by (simp add: chat_completion_result)
  obtain r st2 where c: "chat_completion ?st1 (ai_reply env) = (r, st2)"
    by (cases "chat_completion ?st1 (ai_reply env)")
  have r: "fst (chat_completion st (ai_reply env)) = r"
    using cc c by simp
  have st2: "store st2 = store ?st1"
    using chat_completion_store [of ?st1 "ai_reply env"] c by simp
  have f2: "find_one ?flt (groups (store st2)) = Some (g\<lparr>group_messages := group_messages g @ [um]\<rparr>)"
    using f1 st2 by simp
  have calls2: "calls st2 = calls st @ [FindOne, FindOne, UpdateOne]
             @ (case ensure_async_initialized (service st) of
                  Inl _ \<Rightarrow> [] | Inr _ \<Rightarrow> [ChatCompletion])"
    using chat_completion_calls [of ?st1 "ai_reply env"] c by simp
  have body: "group_send_message st env gid sid uid text_content =
             (case (case r of
                      Inr c \<Rightarrow> c
                    | Inl e \<Rightarrow> Some (lit
                        ''I'm having trouble connecting right now. Please try again later.'')) of
                None \<Rightarrow> (Inl (Error (Exception (service_validation_text env))), st2)
              | Some reply_text \<Rightarrow>
                  (case update_group st2 (second_write_fault env) gid
                          (\<lambda>g. g\<lparr>group_messages := group_messages g @
                              [\<lparr>message_id = second_uuid4 env, gm_user_id = lit ''AI'',
                                gm_content = reply_text, gm_timestamp = second_now env,
                                is_ai = True\<rparr>]\<rparr>) of
                     (Inl x, st3) \<Rightarrow> (Inl x, st3)
                   | (Inr _, st3) \<Rightarrow>
                       (Inr \<lparr>message_id = second_uuid4 env, gm_user_id = lit ''AI'',
                             gm_content = reply_text, gm_timestamp = second_now env,
                             is_ai = True\<rparr>, st3)))"
    using assms(2,3,6,7) c unfolding um_def
    by (simp add: group_send_message_def validate_session_ok [OF assms(4)]
          find_group_ok [where g = g] assms(5) update_group_ok Let_def)
  show ?thesis
    using f2 calls2 body unfolding r by blast
qed

text \<open>
  C2 (as amended). For a member of an existing group who presents a stored
  (session id, user id) pair, when the reads and the first write do not raise: the send
  makes two separate writes, the user's message first, then (after the request to the
  external API, if the client can be created) the reply. Whenever the reply generation
  yields a text (the text returned, or the fixed apology when it raised) and the second
  write succeeds, the stored list has grown by exactly these two entries, in this order.
  When the second write raises, the user's message alone stays stored: the two writes are
  not atomic.
\<close>

theorem group_send_appends_two:
  fixes env :: service_env and uid text_content reply_text :: str and st :: group_state
  defines "um \<equiv> \<lparr>message_id = first_uuid4 env, gm_user_id = uid, gm_content = text_content,
                gm_timestamp = first_now env, is_ai = False\<rparr>"
    and "am \<equiv> \<lparr>message_id = second_uuid4 env, gm_user_id = lit ''AI'',
                gm_content = reply_text, gm_timestamp = second_now env, is_ai = True\<rparr>"
  assumes "session_fault env = None" "group_fault env = None"
    and "find_one (\<lambda>d. gcs_session_id d = sid \<and> gcs_user_id d = uid)
           (group_chat_sessions (store st)) = Some s"
    and "find_one (\<lambda>g. group_id g = gid) (groups (store st)) = Some g"
    and "uid \<in> set (members g)"
    and "first_write_fault env = None"
    and "(case fst (chat_completion st (ai_reply env)) of
            Inr c \<Rightarrow> c
          | Inl e \<Rightarrow> Some (lit ''I'm having trouble connecting right now. Please try again later.''))
         = Some reply_text"
  shows "(second_write_fault env = None \<longrightarrow>
            fst (group_send_message st env gid sid uid text_content) = Inr am \<and>
            find_one (\<lambda>g. group_id g = gid)
              (groups (store (snd (group_send_message st env gid sid uid text_content))))
              = Some (g\<lparr>group_messages := group_messages g @ [um, am]\<rparr>)) \<and>
         (\<forall>e. second_write_fault env = Some e \<longrightarrow>
            fst (group_send_message st env gid sid uid text_content) = Inl (Error e) \<and>
            find_one (\<lambda>g. group_id g = gid)
              (groups (store (snd (group_send_message st env gid sid uid text_content))))
              = Some (g\<lparr>group_messages := group_messages g @ [um]\<rparr>)) \<and>
         calls (snd (group_send_message st env gid sid uid text_content))
           = calls st @ [FindOne, FindOne, UpdateOne]
             @ (case ensure_async_initialized (service st) of
                  Inl _ \<Rightarrow> [] | Inr _ \<Rightarrow> [ChatCompletion])
             @ [UpdateOne]"
proof -
  let ?flt = "\<lambda>g. group_id g = gid"
  have gid: "group_id g = gid"
    using find_one_prop [OF assms(6)] .
  obtain st2 where f2: "find_one ?flt (groups (store st2))
             = Some (g\<lparr>group_messages := group_messages g @ [um]\<rparr>)"
    and calls2: "calls st2 = calls st @ [FindOne, FindOne, UpdateOne]
             @ (case ensure_async_initialized (service st) of
                  Inl _ \<Rightarrow> [] | Inr _ \<Rightarrow> [ChatCompletion])"
    and body: "group_send_message st env gid sid uid text_content =
     (case update_group st2 (second_write_fault env) gid
              (\<lambda>g. g\<lparr>group_messages := group_messages g @ [am]\<rparr>) of
        (Inl x, st) \<Rightarrow> (Inl x, st)
      | (Inr _, st) \<Rightarrow> (Inr am, st))"
    using group_send_message_after_first_write [OF assms(3-8)] assms(9)
    unfolding um_def am_def by auto
  show ?thesis
  proof (intro conjI impI allI)
    assume nf: "second_write_fault env = None"
    show "fst (group_send_message st env gid sid uid text_content) = Inr am"
      by (simp add: body nf update_group_ok)
    show "find_one ?flt (groups (store (snd (group_send_message st env gid sid uid text_content))))
            = Some (g\<lparr>group_messages := group_messages g @ [um, am]\<rparr>)"
      using find_one_update_one [OF f2, of "\<lambda>g. g\<lparr>group_messages := group_messages g @ [am]\<rparr>"] gid
      by (simp add: body nf update_group_ok)
  next
    fix e assume f: "second_write_fault env = Some e"
    show "fst (group_send_message st env gid sid uid text_content) = Inl (Error e)"
      by (simp add: body f update_group_fault)
    show "find_one ?flt (groups (store (snd (group_send_message st env gid sid uid text_content))))
            = Some (g\<lparr>group_messages := group_messages g @ [um]\<rparr>)"
      using f2 by (simp add: body f update_group_fault)
  next
    show "calls (snd (group_send_message st env gid sid uid text_content))
           = calls st @ [FindOne, FindOne, UpdateOne]
             @ (case ensure_async_initialized (service st) of
                  Inl _ \<Rightarrow> [] | Inr _ \<Rightarrow> [ChatCompletion])
             @ [UpdateOne]"
      using calls2
      by (cases "second_write_fault env") (simp_all add: body update_group_ok update_group_fault)
  qed
qed

theorem group_send_appends_two_witness:
  "session_fault ex_service_env = None \<and> group_fault ex_service_env = None \<and>
   first_write_fault ex_service_env = None \<and> second_write_fault ex_service_env = None \<and>
   find_one (\<lambda>d. gcs_session_id d = lit ''s1'' \<and> gcs_user_id d = lit ''alice'')
     (group_chat_sessions (store ex_group_state))
     = Some \<lparr>gcs_session_id = lit ''s1'', gcs_user_id = lit ''alice'', gcs_created_at = 1\<rparr> \<and>
   find_one (\<lambda>g. group_id g = lit ''g1'') (groups (store ex_group_state)) = Some ex_group \<and>
   lit ''alice'' \<in> set (members ex_group) \<and>
   fst (chat_completion ex_group_state (ai_reply ex_service_env)) = Inr (Some (lit ''Hello'')) \<and>
   find_one (\<lambda>g. group_id g = lit ''g1'')
     (groups (store (snd (group_send_message ex_group_state ex_service_env (lit ''g1'') (lit ''s1'')
                            (lit ''alice'') (lit ''hi'')))))
     = Some (ex_group\<lparr>group_messages :=
          [\<lparr>message_id = lit ''u1'', gm_user_id = lit ''alice'', gm_content = lit ''hi'',
            gm_timestamp = 2, is_ai = False\<rparr>,
           \<lparr>message_id = lit ''u2'', gm_user_id = lit ''AI'', gm_content = lit ''Hello'',
            gm_timestamp = 3, is_ai = True\<rparr>]\<rparr>) \<and>
   fst (group_send_message ex_group_state (ex_service_env\<lparr>second_write_fault := Some (Exception (lit ''down''))\<rparr>)
          (lit ''g1'') (lit ''s1'') (lit ''alice'') (lit ''hi''))
     = Inl (Error (Exception (lit ''down''))) \<and>
   find_one (\<lambda>g. group_id g = lit ''g1'')
     (groups (store (snd (group_send_message ex_group_state
          (ex_service_env\<lparr>ai_reply := Inl (lit ''timeout'')\<rparr>) (lit ''g1'') (lit ''s1'')
          (lit ''alice'') (lit ''hi'')))))
     = Some (ex_group\<lparr>group_messages :=
          [\<lparr>message_id = lit ''u1'', gm_user_id = lit ''alice'', gm_content = lit ''hi'',
            gm_timestamp = 2, is_ai = False\<rparr>,
           \<lparr>message_id = lit ''u2'', gm_user_id = lit ''AI'',
            gm_content = lit ''I'm having trouble connecting right now. Please try again later.'',
            gm_timestamp = 3, is_ai = True\<rparr>]\<rparr>)"
  using group_send_appends_two [of ex_service_env "lit ''s1''" "lit ''alice''" ex_group_state
          "\<lparr>gcs_session_id = lit ''s1'', gcs_user_id = lit ''alice'', gcs_created_at = 1\<rparr>"
          "lit ''g1''" ex_group "lit ''Hello''" "lit ''hi''"]
        group_send_appends_two [of "ex_service_env\<lparr>second_write_fault := Some (Exception (lit ''down''))\<rparr>"
          "lit ''s1''" "lit ''alice''" ex_group_state
          "\<lparr>gcs_session_id = lit ''s1'', gcs_user_id = lit ''alice'', gcs_created_at = 1\<rparr>"
          "lit ''g1''" ex_group "lit ''Hello''" "lit ''hi''"]
        group_send_appends_two [of "ex_service_env\<lparr>ai_reply := Inl (lit ''timeout'')\<rparr>"
          "lit ''s1''" "lit ''alice''" ex_group_state
          "\<lparr>gcs_session_id = lit ''s1'', gcs_user_id = lit ''alice'', gcs_created_at = 1\<rparr>"
          "lit ''g1''" ex_group
          "lit ''I'm having trouble connecting right now. Please try again later.''" "lit ''hi''"]
  by (simp add: ex_service_env_def ex_group_state_def ex_group_def ex_service_def find_one_def lit_def
        chat_completion_result ensure_async_initialized_def)

theorem group_send_invalid_session_counterexample:
  "lit ''alice'' \<in> set (members ex_group) \<and>
   groups (store ex_group_state) = [ex_group] \<and> group_id ex_group = lit ''g1'' \<and>
   group_send_message ex_group_state ex_service_env (lit ''g1'') (lit ''s2'') (lit ''alice'') (lit ''hi'')
     = (Inl (HTTPException 401 (lit ''Invalid session or user mismatch'')),
        logged FindOne ex_group_state)"
  by (simp add: ex_service_env_def ex_group_state_def ex_group_def find_one_def lit_def
        group_send_message_def validate_session_def Let_def)

text \<open>
  The outcome the statement above leaves out: the request to the external API returns
  an answer whose \<open>content\<close> is \<open>None\<close>. \<open>chat_completion\<close> returns it unchecked (the
  synchronous \<open>generate_completion\<close> of the same class tests \<open>response.choices\<close> and
  \<open>message.content\<close> first); the constructor of the reply message then raises outside
  the \<open>try\<close>, after the first write: the list has grown by the user's message alone, no
  second write is made, and the route answers 500.
\<close>

lemma group_send_no_text:
  fixes env :: service_env and uid text_content :: str and st :: group_state
  defines "um \<equiv> \<lparr>message_id = first_uuid4 env, gm_user_id = uid, gm_content = text_content,
                gm_timestamp = first_now env, is_ai = False\<rparr>"
  assumes "session_fault env = None" "group_fault env = None"
    and "find_one (\<lambda>d. gcs_session_id d = sid \<and> gcs_user_id d = uid)
           (group_chat_sessions (store st)) = Some s"
    and "find_one (\<lambda>g. group_id g = gid) (groups (store st)) = Some g"
    and "uid \<in> set (members g)"
    and "first_write_fault env = None"
    and "fst (chat_completion st (ai_reply env)) = Inr None"
  shows "fst (group_send_message st env gid sid uid text_content)
           = Inl (Error (Exception (service_validation_text env)))"
    and "fst (send_message_route st env uid sid gid text_content)
           = Inl (HTTPException 500 (service_validation_text env))"
    and "find_one (\<lambda>g. group_id g = gid)
              (groups (store (snd (group_send_message st env gid sid uid text_content))))
              = Some (g\<lparr>group_messages := group_messages g @ [um]\<rparr>)"
    and "calls (snd (group_send_message st env gid sid uid text_content))
           = calls st @ [FindOne, FindOne, UpdateOne, ChatCompletion]"
proof -
  obtain st2 where f2: "find_one (\<lambda>g. group_id g = gid) (groups (store st2))
             = Some (g\<lparr>group_messages := group_messages g @ [um]\<rparr>)"
    and calls2: "calls st2 = calls st @ [FindOne, FindOne, UpdateOne]
             @ (case ensure_async_initialized (service st) of
                  Inl _ \<Rightarrow> [] | Inr _ \<Rightarrow> [ChatCompletion])"
    and body: "group_send_message st env gid sid uid text_content =
       (Inl (Error (Exception (service_validation_text env))), st2)"
    using group_send_message_after_first_write [OF assms(2-7)] assms(8)
    unfolding um_def by auto
  have init: "\<exists>svc. ensure_async_initialized (service st) = Inr svc"
    using assms(8) by (auto simp: chat_completion_def Let_def split: sum.splits)
  show "fst (group_send_message st env gid sid uid text_content)
           = Inl (Error (Exception (service_validation_text env)))"
    by (simp add: body)
  show "fst (send_message_route st env uid sid gid text_content)
           = Inl (HTTPException 500 (service_validation_text env))"
    by (simp add: send_message_route_def route_def body reraise_def)
  show "find_one (\<lambda>g. group_id g = gid)
              (groups (store (snd (group_send_message st env gid sid uid text_content))))
              = Some (g\<lparr>group_messages := group_messages g @ [um]\<rparr>)"
    using f2 by (simp add: body)
  show "calls (snd (group_send_message st env gid sid uid text_content))
           = calls st @ [FindOne, FindOne, UpdateOne, ChatCompletion]"
    using calls2 init by (auto simp: body)
qed

lemma group_send_no_text_example:
  "fst (send_message_route ex_group_state (ex_service_env\<lparr>ai_reply := Inr None\<rparr>)
          (lit ''alice'') (lit ''s1'') (lit ''g1'') (lit ''hi''))
     = Inl (HTTPException 500 (lit ''1 validation error for GroupMessage'')) \<and>
   find_one (\<lambda>g. group_id g = lit ''g1'')
     (groups (store (snd (send_message_route ex_group_state (ex_service_env\<lparr>ai_reply := Inr None\<rparr>)
          (lit ''alice'') (lit ''s1'') (lit ''g1'') (lit ''hi'')))))
     = Some (ex_group\<lparr>group_messages :=
          [\<lparr>message_id = lit ''u1'', gm_user_id = lit ''alice'', gm_content = lit ''hi'',
            gm_timestamp = 2, is_ai = False\<rparr>]\<rparr>)"
  by (simp add: send_message_route_def route_def group_send_message_def validate_session_def
        find_group_def update_group_def chat_completion_def ensure_async_initialized_def
        ex_service_env_def ex_group_state_def ex_group_def ex_service_def find_one_def
        lit_def Let_def reraise_def logged_def)


subsection \<open>The title of a chat session\<close>

text \<open>
  C3. In the chat message route, on the first interaction of a session (no message
  stored yet) whose text is not empty, when title generation fails (the request to the
  external API raises or its answer carries no text, or \<open>generate_title\<close> itself
  raises) the title assigned is the
  first 40 characters of the text, stripped, followed by an ellipsis when the text has
  more than 40 characters. The failure goes no further: what the handler returns is
  decided by the chat completion and the database write alone, and when both succeed
  it is the normal response, carrying that title, which is also the title stored.
\<close>

theorem title_fallback_on_failure:
  assumes "find_fault env = None"
    and "find_one (session_filter sid uid) (store st) = Some sess"
    and "messages sess = []"
    and "process_audio (logged FindOne st) env message (normalize_upload audio) = (Inr utext, st1)"
    and "utext \<noteq> []"
    and "process_image (normalize_upload img) = Inr image_data"
    and "title_reply env = Inl m \<or> title_reply env = Inr None \<or>
         fst (generate_title st1 utext (title_reply env)) = Inl e"
  shows "fst (assign_title st1 True utext (title_reply env) (title sess))
           = strip (take 40 utext) @ (if length utext > 40 then lit ''...'' else []) \<and>
         (case chat_completion (snd (assign_title st1 True utext (title_reply env) (title sess)))
                 (chat_reply env) of
            (Inl e', st3) \<Rightarrow>
              fst (send_message st env uid sid message audio img)
                = Inl (HTTPException 500 (lit ''OpenAI API error: '' @ str_error e'))
          | (Inr None, st3) \<Rightarrow>
              fst (send_message st env uid sid message audio img)
                = Inl (HTTPException 500 (lit ''Internal server error: '' @ validation_text env))
          | (Inr (Some c), st3) \<Rightarrow>
              (case update_fault env of
                 Some e' \<Rightarrow>
                   fst (send_message st env uid sid message audio img)
                     = Inl (HTTPException 500 (lit ''Internal server error: '' @ str_error e'))
               | None \<Rightarrow>
                   fst (send_message st env uid sid message audio img)
                     = Inr (ChatResponse sid
                              (strip (take 40 utext)
                               @ (if length utext > 40 then lit ''...'' else []))
                              c (now_assistant env)) \<and>
                   map_option title (find_one (session_filter sid uid)
                      (store (snd (send_message st env uid sid message audio img))))
                     = Some (strip (take 40 utext)
                             @ (if length utext > 40 then lit ''...'' else []))))"
proof -
  let ?fb = "strip (take 40 utext) @ (if length utext > 40 then lit ''...'' else [])"
  obtain t st2 where at: "assign_title st1 True utext (title_reply env) (title sess) = (t, st2)"
    by (cases "assign_title st1 True utext (title_reply env) (title sess)")
  have t: "t = ?fb"
    using assign_title_failure [OF assms(5,7), of "title sess"] at by simp
  have at': "assign_title st1 (messages sess = []) utext (title_reply env) (title sess) = (t, st2)"
    using at assms(3) by simp
  have flt: "session_filter sid uid sess"
    using find_one_prop [OF assms(2)] .
  have red': "send_message st env uid sid message audio img =
     (case chat_completion st2 (chat_reply env) of
        (Inl e, st3) \<Rightarrow>
          (Inl (HTTPException 500 (lit ''OpenAI API error: '' @ str_error e)), st3)
      | (Inr None, st3) \<Rightarrow>
          (Inl (HTTPException 500 (lit ''Internal server error: '' @ validation_text env)), st3)
      | (Inr (Some c), st3) \<Rightarrow>
          (case update_fault env of
             Some e \<Rightarrow>
               (Inl (HTTPException 500 (lit ''Internal server error: '' @ str_error e)),
                logged UpdateOne st3)
           | None \<Rightarrow>
               (Inr (ChatResponse sid t c (now_assistant env)),
                (logged UpdateOne st3)\<lparr>store := update_one (session_filter sid uid)
                  (\<lambda>_. sess\<lparr>title := t,
                        messages := messages sess
                          @ [user_message_of utext image_data (now_user env),
                             \<lparr>role = assistant, content = Str c, timestamp = now_assistant env\<rparr>],
                        updated_at := now_session env\<rparr>) (store st)\<rparr>)))"
    by (rule send_message_after_title [OF assms(1,2,4) _ assms(6) at']) (simp add: assms(5))
  have found: "find_one (session_filter sid uid)
          (update_one (session_filter sid uid) (\<lambda>_. d') (store st)) = Some d'"
    if "session_filter sid uid d'" for d'
    using find_one_update_one [OF assms(2), of "\<lambda>_. d'"] that by simp
  have keep: "session_filter sid uid (sess\<lparr>title := a, messages := b, updated_at := c\<rparr>)" for a b c
    using flt by (simp add: session_filter_def)
  show ?thesis
    using t at
    by (auto simp: red' found keep split: prod.splits sum.splits option.splits)
qed

theorem title_fallback_on_failure_witness:
  "find_fault ex_message_env = None \<and>
   find_one (session_filter (lit ''s1'') (lit ''alice'')) (store ex_chat_state) = Some ex_session \<and>
   messages ex_session = [] \<and>
   process_audio (logged FindOne ex_chat_state) ex_message_env ex_long_message
     (normalize_upload NoFile) = (Inr ex_long_message, logged FindOne ex_chat_state) \<and>
   ex_long_message \<noteq> [] \<and>
   process_image (normalize_upload NoFile) = Inr None \<and>
   title_reply ex_message_env = Inl (lit ''timeout'') \<and>
   fst (send_message ex_chat_state ex_message_env (lit ''alice'') (lit ''s1'') ex_long_message
          NoFile NoFile)
     = Inr (ChatResponse (lit ''s1'') (lit ''Please help me plan a two weeks trip to...'')
              (lit ''Hello'') 3)"
  using title_fallback_on_failure [of ex_message_env "lit ''s1''" "lit ''alice''" ex_chat_state
          ex_session ex_long_message NoFile ex_long_message "logged FindOne ex_chat_state" NoFile
          None "lit ''timeout''"]
  by (simp add: ex_defs run_defs lit_def)


text \<open>
  C4 (as amended). Title generation happens on the first interaction of a session only
  when that interaction carries text: a message operation that succeeds on a session
  leaves it with messages and with the title \<open>generate_title\<close> gave (or the truncation
  of the text when it raised) if the session had no message and the text is not empty,
  and with the title it had otherwise. From then on, and for every session that has a
  message, no sequence of message operations (on any sessions, by any users) changes the
  title; the same holds for temporary sessions.
\<close>

theorem title_fixed_after_first:
  "(\<forall>sess. find_one (session_filter sid uid) (store st) = Some sess \<and> messages sess \<noteq> [] \<longrightarrow>
      map_option title (find_one (session_filter sid uid) (store (run_messages st reqs)))
        = Some (title sess)) \<and>
   (\<forall>sess r st'. find_one (session_filter sid uid) (store st) = Some sess \<and>
      send_message st env uid sid message audio img = (Inr r, st') \<longrightarrow>
      (\<exists>utext st1 s' c.
         process_audio (logged FindOne st) env message (normalize_upload audio) = (Inr utext, st1) \<and>
         find_one (session_filter sid uid) (store st') = Some s' \<and>
         messages s' \<noteq> [] \<and>
         title s' =
           (if messages sess = [] \<and> utext \<noteq> [] then
              (case fst (generate_title st1 utext (title_reply env)) of
                 Inr generated_title \<Rightarrow> generated_title
               | Inl e \<Rightarrow> strip (take 40 utext)
                            @ (if length utext > 40 then lit ''...'' else []))
            else title sess) \<and>
         r = ChatResponse sid (title s') c (now_assistant env) \<and>
         map_option title (find_one (session_filter sid uid) (store (run_messages st' reqs)))
           = Some (title s'))) \<and>
   (\<forall>sess. store tst sid = Some sess \<and> messages sess \<noteq> [] \<longrightarrow>
      map_option title (store (run_temp_messages tst reqs) sid) = Some (title sess))"
proof (intro conjI allI impI)
  fix sess
  assume "find_one (session_filter sid uid) (store st) = Some sess \<and> messages sess \<noteq> []"
  then show "map_option title (find_one (session_filter sid uid) (store (run_messages st reqs)))
        = Some (title sess)"
    using run_messages_keeps_title [of sid uid st sess reqs] by auto
next
  fix sess
  assume "store tst sid = Some sess \<and> messages sess \<noteq> []"
  then show "map_option title (store (run_temp_messages tst reqs) sid) = Some (title sess)"
    using run_temp_messages_keeps_title [of tst sid sess reqs] by auto
next
  fix sess r st'
  assume a: "find_one (session_filter sid uid) (store st) = Some sess \<and>
      send_message st env uid sid message audio img = (Inr r, st')"
  obtain rb stb where b: "send_message_body st env uid sid message audio img = (rb, stb)"
    by (cases "send_message_body st env uid sid message audio img")
  have rb: "rb = Inr r" and stb: "stb = st'"
    using a b by (auto simp: send_message_def send_message_handler_def split: sum.splits)
  from b show "\<exists>utext st1 s' c.
         process_audio (logged FindOne st) env message (normalize_upload audio) = (Inr utext, st1) \<and>
         find_one (session_filter sid uid) (store st') = Some s' \<and>
         messages s' \<noteq> [] \<and>
         title s' =
           (if messages sess = [] \<and> utext \<noteq> [] then
              (case fst (generate_title st1 utext (title_reply env)) of
                 Inr generated_title \<Rightarrow> generated_title
               | Inl e \<Rightarrow> strip (take 40 utext)
                            @ (if length utext > 40 then lit ''...'' else []))
            else title sess) \<and>
         r = ChatResponse sid (title s') c (now_assistant env) \<and>
         map_option title (find_one (session_filter sid uid) (store (run_messages st' reqs)))
           = Some (title s')"
  proof (cases rule: send_message_body_elim)
    case (failed x)
    then show ?thesis using rb by simp
  next
    case (sent sess' utext st1 image_data c st3 new_title)
    let ?cs = "sess\<lparr>title := new_title,
                 messages := messages sess
                   @ [user_message_of utext image_data (now_user env),
                      \<lparr>role = assistant, content = Str c, timestamp = now_assistant env\<rparr>],
                 updated_at := now_session env\<rparr>"
    have same: "sess' = sess"
      using a sent(3) by simp
    have flt: "session_filter sid uid sess"
      by (rule find_one_prop [OF a [THEN conjunct1]])
    have f: "find_one (session_filter sid uid) (store st') = Some ?cs"
      using find_one_update_one [OF sent(3), of "\<lambda>_. ?cs"] flt
      by (simp add: stb [symmetric] sent(10) same session_filter_def)
    have ttl: "new_title =
           (if messages sess = [] \<and> utext \<noteq> [] then
              (case fst (generate_title st1 utext (title_reply env)) of
                 Inr generated_title \<Rightarrow> generated_title
               | Inl e \<Rightarrow> strip (take 40 utext)
                            @ (if length utext > 40 then lit ''...'' else []))
            else title sess)"
      unfolding sent(7) same by (rule fst_assign_title)
    have later: "map_option title (find_one (session_filter sid uid) (store (run_messages st' reqs)))
           = Some (title ?cs)"
      using run_messages_keeps_title [OF f, of reqs] by auto
    have resp: "r = ChatResponse sid (title ?cs) c (now_assistant env)"
      using rb sent(9) by simp
    have ttl': "title ?cs =
           (if messages sess = [] \<and> utext \<noteq> [] then
              (case fst (generate_title st1 utext (title_reply env)) of
                 Inr generated_title \<Rightarrow> generated_title
               | Inl e \<Rightarrow> strip (take 40 utext)
                            @ (if length utext > 40 then lit ''...'' else []))
            else title sess)"
      using ttl by simp
    have ne: "messages ?cs \<noteq> []"
      by simp
    show ?thesis
    proof (intro exI conjI)
      show "process_audio (logged FindOne st) env message (normalize_upload audio) = (Inr utext, st1)"
        by (rule sent(4))
      show "find_one (session_filter sid uid) (store st') = Some ?cs"
        by (rule f)
      show "messages ?cs \<noteq> []"
        by (rule ne)
      show "title ?cs =
           (if messages sess = [] \<and> utext \<noteq> [] then
              (case fst (generate_title st1 utext (title_reply env)) of
                 Inr generated_title \<Rightarrow> generated_title
               | Inl e \<Rightarrow> strip (take 40 utext)
                            @ (if length utext > 40 then lit ''...'' else []))
            else title sess)"
        by (rule ttl')
      show "r = ChatResponse sid (title ?cs) c (now_assistant env)"
        by (rule resp)
      show "map_option title (find_one (session_filter sid uid) (store (run_messages st' reqs)))
           = Some (title ?cs)"
        by (rule later)
    qed
  qed
qed

theorem title_fixed_after_first_witness:
  "find_one (session_filter (lit ''s1'') (lit ''alice'')) (store ex_chat_state) = Some ex_session \<and>
   fst (send_message ex_chat_state ex_message_env (lit ''alice'') (lit ''s1'') ex_long_message
          NoFile NoFile)
     = Inr (ChatResponse (lit ''s1'') (lit ''Please help me plan a two weeks trip to...'')
              (lit ''Hello'') 3) \<and>
   map_option title
     (find_one (session_filter (lit ''s1'') (lit ''alice''))
        (store (run_messages
                  (snd (send_message ex_chat_state ex_message_env (lit ''alice'') (lit ''s1'')
                          ex_long_message NoFile NoFile))
                  [ex_request])))
     = Some (lit ''Please help me plan a two weeks trip to...'') \<and>
   map_option messages
     (find_one (session_filter (lit ''s1'') (lit ''alice''))
        (store (snd (send_message ex_chat_state ex_message_env (lit ''alice'') (lit ''s1'')
                       ex_long_message NoFile NoFile))))
     = Some [\<lparr>role = user, content = Str ex_long_message, timestamp = 2\<rparr>,
             \<lparr>role = assistant, content = Str (lit ''Hello''), timestamp = 3\<rparr>] \<and>
   map_option messages
     (store (snd (send_temp_message ex_temp_state ex_message_env (lit ''alice'') (lit ''s1'')
                    ex_long_message NoFile NoFile)) (lit ''s1''))
     = Some [\<lparr>role = user, content = Str ex_long_message, timestamp = 2\<rparr>,
             \<lparr>role = assistant, content = Str (lit ''Hello''), timestamp = 3\<rparr>] \<and>
   map_option title
     (store (run_temp_messages
               (snd (send_temp_message ex_temp_state ex_message_env (lit ''alice'') (lit ''s1'')
                       ex_long_message NoFile NoFile))
               [ex_request]) (lit ''s1''))
     = Some (lit ''Please help me plan a two weeks trip to...'')"
  using title_fixed_after_first [of "lit ''s1''" "lit ''alice''" ex_chat_state "[ex_request]"
          ex_message_env ex_long_message NoFile NoFile ex_temp_state]
        title_fixed_after_first [of "lit ''s1''" "lit ''alice''"
          "snd (send_message ex_chat_state ex_message_env (lit ''alice'') (lit ''s1'')
                  ex_long_message NoFile NoFile)" "[ex_request]"
          ex_message_env ex_long_message NoFile NoFile
          "snd (send_temp_message ex_temp_state ex_message_env (lit ''alice'') (lit ''s1'')
                  ex_long_message NoFile NoFile)"]
  by (simp add: ex_defs run_defs lit_def ex_temp_state_def send_temp_message_def
        send_temp_message_body_def)

text \<open>
  A first interaction with an image and no text succeeds and leaves the default title,
  which the next interaction, with text, does not change either.
\<close>

theorem first_image_only_counterexample:
  "map messages (store ex_chat_state) = [[]] \<and>
   fst (send_message ex_chat_state ex_message_env (lit ''alice'') (lit ''s1'') [] NoFile
          (Upload ex_image))
     = Inr (ChatResponse (lit ''s1'') (lit ''New Chat'') (lit ''Hello'') 3) \<and>
   map title (store (snd (send_message ex_chat_state ex_message_env (lit ''alice'') (lit ''s1'') []
                            NoFile (Upload ex_image)))) = [lit ''New Chat''] \<and>
   map title (store (run_messages
                (snd (send_message ex_chat_state ex_message_env (lit ''alice'') (lit ''s1'') []
                        NoFile (Upload ex_image)))
                [ex_request])) = [lit ''New Chat'']"
  by (simp add: ex_defs run_defs lit_def)


subsection \<open>Failures of the database and of the external API\<close>

text \<open>
  C5 (as amended). In the chat routes, an exception of the database surfaces as an
  error 500 whose detail ends with the text of the exception (in the message handler, in
  fetching the history, in deleting and in creating a session), and an exception of the
  chat completion request surfaces as an error 500 whose detail ends with that text. The
  failed call is made once: the log of the requests ends with it, nothing is written
  after it, and the stored sessions are as before. The routes of group chat turn an
  exception of the database into an error 500 with its text as well. An exception of
  the transcription request is reported as an error 400, with its text.
\<close>

theorem upstream_failure_surfaces:
  "(\<forall>e. find_fault env = Some e \<longrightarrow>
      send_message st env uid sid message audio img
        = (Inl (HTTPException 500 (lit ''Internal server error: '' @ str_error e)),
           logged FindOne st)) \<and>
   (find_fault env = None \<and>
    find_one (session_filter sid uid) (store st) = Some sess \<and>
    process_audio (logged FindOne st) env message (normalize_upload audio) = (Inr utext, st1) \<and>
    (utext \<noteq> [] \<or> normalize_upload img \<noteq> None) \<and>
    process_image (normalize_upload img) = Inr image_data \<and>
    assign_title st1 (messages sess = []) utext (title_reply env) (title sess) = (t, st2) \<longrightarrow>
      (\<forall>m. chat_reply env = Inl m \<and>
           (OPENAI_API_KEY (service st2) \<noteq> [] \<or> async_initialized (service st2)) \<longrightarrow>
         fst (send_message st env uid sid message audio img)
           = Inl (HTTPException 500 (lit ''OpenAI API error: '' @ lit ''OpenAI API Error: '' @ m)) \<and>
         store (snd (send_message st env uid sid message audio img)) = store st \<and>
         calls (snd (send_message st env uid sid message audio img))
           = calls st2 @ [ChatCompletion]) \<and>
      (\<forall>c e. fst (chat_completion st2 (chat_reply env)) = Inr (Some c) \<and>
           update_fault env = Some e \<longrightarrow>
         fst (send_message st env uid sid message audio img)
           = Inl (HTTPException 500 (lit ''Internal server error: '' @ str_error e)) \<and>
         store (snd (send_message st env uid sid message audio img)) = store st \<and>
         calls (snd (send_message st env uid sid message audio img))
           = calls st2 @ [ChatCompletion, UpdateOne])) \<and>
   (\<forall>e. get_session_history st (Some e) sid uid
      = (Inl (HTTPException 500 (lit ''Failed to retrieve session history: '' @ str_error e)),
         logged FindOne st)) \<and>
   (\<forall>e. delete_session st (Some e) sid uid
      = (Inl (HTTPException 500 (lit ''Failed to delete session: '' @ str_error e)),
         logged DeleteOne st)) \<and>
   (\<forall>e. insert_fault cenv = Some e \<longrightarrow>
      create_session st cenv uid
        = (Inl (HTTPException 500 (lit ''Failed to create session: '' @ str_error e)),
           logged InsertOne st)) \<and>
   (\<forall>e. session_fault genv = Some e \<longrightarrow>
      send_message_route gst genv uid sid gid message
        = (Inl (HTTPException 500 (str_error e)), logged FindOne gst)) \<and>
   (\<forall>e s. session_fault genv = None \<and>
      find_one (\<lambda>d. gcs_session_id d = sid \<and> gcs_user_id d = uid)
        (group_chat_sessions (store gst)) = Some s \<and>
      group_fault genv = Some e \<longrightarrow>
      send_message_route gst genv uid sid gid message
        = (Inl (HTTPException 500 (str_error e)), logged FindOne (logged FindOne gst))) \<and>
   (\<forall>e s g. session_fault genv = None \<and> group_fault genv = None \<and>
      find_one (\<lambda>d. gcs_session_id d = sid \<and> gcs_user_id d = uid)
        (group_chat_sessions (store gst)) = Some s \<and>
      find_one (\<lambda>g. group_id g = gid) (groups (store gst)) = Some g \<and>
      uid \<in> set (members g) \<and> first_write_fault genv = Some e \<longrightarrow>
      send_message_route gst genv uid sid gid message
        = (Inl (HTTPException 500 (str_error e)),
           logged UpdateOne (logged FindOne (logged FindOne gst)))) \<and>
   (\<forall>m. find_fault env = None \<and>
      find_one (session_filter sid uid) (store st) = Some sess \<and>
      audio = Upload \<lparr>audio_read_fault = None\<rparr> \<and> transcription_reply env = Inl m \<and>
      (OPENAI_API_KEY (service st) \<noteq> [] \<or> async_initialized (service st)) \<longrightarrow>
      fst (send_message st env uid sid message audio img)
        = Inl (HTTPException 400
                 (lit ''Audio transcription failed: '' @ lit ''Audio Transcription Error: '' @ m)))"
proof (intro conjI allI impI)
  fix e assume "session_fault genv = Some e"
  then show "send_message_route gst genv uid sid gid message
        = (Inl (HTTPException 500 (str_error e)), logged FindOne gst)"
    by (simp add: send_message_route_def route_def group_send_message_def validate_session_def
          reraise_def Let_def)
next
  fix e s
  assume "session_fault genv = None \<and>
      find_one (\<lambda>d. gcs_session_id d = sid \<and> gcs_user_id d = uid)
        (group_chat_sessions (store gst)) = Some s \<and>
      group_fault genv = Some e"
  then show "send_message_route gst genv uid sid gid message
        = (Inl (HTTPException 500 (str_error e)), logged FindOne (logged FindOne gst))"
    by (simp add: send_message_route_def route_def group_send_message_def validate_session_def
          find_group_def reraise_def Let_def)
next
  fix e s g
  assume "session_fault genv = None \<and> group_fault genv = None \<and>
      find_one (\<lambda>d. gcs_session_id d = sid \<and> gcs_user_id d = uid)
        (group_chat_sessions (store gst)) = Some s \<and>
      find_one (\<lambda>g. group_id g = gid) (groups (store gst)) = Some g \<and>
      uid \<in> set (members g) \<and> first_write_fault genv = Some e"
  then show "send_message_route gst genv uid sid gid message
        = (Inl (HTTPException 500 (str_error e)),
           logged UpdateOne (logged FindOne (logged FindOne gst)))"
    by (simp add: send_message_route_def route_def group_send_message_def validate_session_def
          find_group_def update_group_def reraise_def Let_def)
next
  fix m
  assume "find_fault env = None \<and>
      find_one (session_filter sid uid) (store st) = Some sess \<and>
      audio = Upload \<lparr>audio_read_fault = None\<rparr> \<and> transcription_reply env = Inl m \<and>
      (OPENAI_API_KEY (service st) \<noteq> [] \<or> async_initialized (service st))"
  then show "fst (send_message st env uid sid message audio img)
        = Inl (HTTPException 400
                 (lit ''Audio transcription failed: '' @ lit ''Audio Transcription Error: '' @ m))"
    by (auto simp: send_message_def send_message_handler_def send_message_body_def send_message_prepare_def send_message_write_def process_audio_def
          transcribe_audio_def ensure_async_initialized_def reraise_def Let_def)
next
  fix e assume "find_fault env = Some e"
  then show "send_message st env uid sid message audio img
        = (Inl (HTTPException 500 (lit ''Internal server error: '' @ str_error e)),
           logged FindOne st)"
    by (simp add: send_message_def send_message_handler_def send_message_body_def send_message_prepare_def send_message_write_def Let_def reraise_def)
next
  fix e
  show "get_session_history st (Some e) sid uid
      = (Inl (HTTPException 500 (lit ''Failed to retrieve session history: '' @ str_error e)),
         logged FindOne st)"
    by (simp add: get_session_history_def Let_def reraise_def)
next
  fix e
  show "delete_session st (Some e) sid uid
      = (Inl (HTTPException 500 (lit ''Failed to delete session: '' @ str_error e)),
         logged DeleteOne st)"
    by (simp add: delete_session_def Let_def reraise_def)
next
  fix e assume "insert_fault cenv = Some e"
  then show "create_session st cenv uid
        = (Inl (HTTPException 500 (lit ''Failed to create session: '' @ str_error e)),
           logged InsertOne st)"
    by (simp add: create_session_def Let_def)
next
  fix m
  assume a: "find_fault env = None \<and>
    find_one (session_filter sid uid) (store st) = Some sess \<and>
    process_audio (logged FindOne st) env message (normalize_upload audio) = (Inr utext, st1) \<and>
    (utext \<noteq> [] \<or> normalize_upload img \<noteq> None) \<and>
    process_image (normalize_upload img) = Inr image_data \<and>
    assign_title st1 (messages sess = []) utext (title_reply env) (title sess) = (t, st2)"
    and b: "chat_reply env = Inl m \<and>
           (OPENAI_API_KEY (service st2) \<noteq> [] \<or> async_initialized (service st2))"
  have red: "send_message st env uid sid message audio img =
     (case chat_completion st2 (chat_reply env) of
        (Inl e, st3) \<Rightarrow>
          (Inl (HTTPException 500 (lit ''OpenAI API error: '' @ str_error e)), st3)
      | (Inr None, st3) \<Rightarrow>
          (Inl (HTTPException 500 (lit ''Internal server error: '' @ validation_text env)), st3)
      | (Inr (Some c), st3) \<Rightarrow>
          (case update_fault env of
             Some e \<Rightarrow>
               (Inl (HTTPException 500 (lit ''Internal server error: '' @ str_error e)),
                logged UpdateOne st3)
           | None \<Rightarrow>
               (Inr (ChatResponse sid t c (now_assistant env)),
                (logged UpdateOne st3)\<lparr>store := update_one (session_filter sid uid)
                  (\<lambda>_. sess\<lparr>title := t,
                        messages := messages sess
                          @ [user_message_of utext image_data (now_user env),
                             \<lparr>role = assistant, content = Str c, timestamp = now_assistant env\<rparr>],
                        updated_at := now_session env\<rparr>) (store st)\<rparr>)))"
    by (rule send_message_after_title [OF a [THEN conjunct1] a [THEN conjunct2, THEN conjunct1]
          a [THEN conjunct2, THEN conjunct2, THEN conjunct1]
          a [THEN conjunct2, THEN conjunct2, THEN conjunct2, THEN conjunct1]
          a [THEN conjunct2, THEN conjunct2, THEN conjunct2, THEN conjunct2, THEN conjunct1]
          a [THEN conjunct2, THEN conjunct2, THEN conjunct2, THEN conjunct2, THEN conjunct2]])
  have s2: "store st2 = store st"
    using a assign_title_store process_audio_store by fastforce
  show "fst (send_message st env uid sid message audio img)
           = Inl (HTTPException 500 (lit ''OpenAI API error: '' @ lit ''OpenAI API Error: '' @ m))"
    using b by (auto simp: red chat_completion_def ensure_async_initialized_def Let_def)
  show "store (snd (send_message st env uid sid message audio img)) = store st"
    using b s2 by (auto simp: red chat_completion_def ensure_async_initialized_def Let_def)
  show "calls (snd (send_message st env uid sid message audio img)) = calls st2 @ [ChatCompletion]"
    using b by (auto simp: red chat_completion_def ensure_async_initialized_def Let_def)
next
  fix c e
  assume a: "find_fault env = None \<and>
    find_one (session_filter sid uid) (store st) = Some sess \<and>
    process_audio (logged FindOne st) env message (normalize_upload audio) = (Inr utext, st1) \<and>
    (utext \<noteq> [] \<or> normalize_upload img \<noteq> None) \<and>
    process_image (normalize_upload img) = Inr image_data \<and>
    assign_title st1 (messages sess = []) utext (title_reply env) (title sess) = (t, st2)"
    and b: "fst (chat_completion st2 (chat_reply env)) = Inr (Some c) \<and>
           update_fault env = Some e"
  have red: "send_message st env uid sid message audio img =
     (case chat_completion st2 (chat_reply env) of
        (Inl e, st3) \<Rightarrow>
          (Inl (HTTPException 500 (lit ''OpenAI API error: '' @ str_error e)), st3)
      | (Inr None, st3) \<Rightarrow>
          (Inl (HTTPException 500 (lit ''Internal server error: '' @ validation_text env)), st3)
      | (Inr (Some c), st3) \<Rightarrow>
          (case update_fault env of
             Some e \<Rightarrow>
               (Inl (HTTPException 500 (lit ''Internal server error: '' @ str_error e)),
                logged UpdateOne st3)
           | None \<Rightarrow>
               (Inr (ChatResponse sid t c (now_assistant env)),
                (logged UpdateOne st3)\<lparr>store := update_one (session_filter sid uid)
                  (\<lambda>_. sess\<lparr>title := t,
                        messages := messages sess
                          @ [user_message_of utext image_data (now_user env),
                             \<lparr>role = assistant, content = Str c, timestamp = now_assistant env\<rparr>],
                        updated_at := now_session env\<rparr>) (store st)\<rparr>)))"
    by (rule send_message_after_title [OF a [THEN conjunct1] a [THEN conjunct2, THEN conjunct1]
          a [THEN conjunct2, THEN conjunct2, THEN conjunct1]
          a [THEN conjunct2, THEN conjunct2, THEN conjunct2, THEN conjunct1]
          a [THEN conjunct2, THEN conjunct2, THEN conjunct2, THEN conjunct2, THEN conjunct1]
          a [THEN conjunct2, THEN conjunct2, THEN conjunct2, THEN conjunct2, THEN conjunct2]])
  have s2: "store st2 = store st"
    using a assign_title_store process_audio_store by fastforce
  obtain st3 where cc: "chat_completion st2 (chat_reply env) = (Inr (Some c), st3)"
    using b by (cases "chat_completion st2 (chat_reply env)") simp
  have s3: "store st3 = store st"
    using chat_completion_store' [OF cc] s2 by simp
  have c3: "calls st3 = calls st2 @ [ChatCompletion]"
    using cc by (auto simp: chat_completion_def Let_def split: sum.splits)
  show "fst (send_message st env uid sid message audio img)
           = Inl (HTTPException 500 (lit ''Internal server error: '' @ str_error e))"
    using b by (simp add: red cc)
  show "store (snd (send_message st env uid sid message audio img)) = store st"
    using b s3 by (simp add: red cc)
  show "calls (snd (send_message st env uid sid message audio img))
           = calls st2 @ [ChatCompletion, UpdateOne]"
    using b c3 by (simp add: red cc)
qed

theorem upstream_failure_surfaces_witness:
  "find_fault (ex_message_env\<lparr>find_fault := Some (Exception (lit ''db down''))\<rparr>)
     = Some (Exception (lit ''db down'')) \<and>
   fst (send_message ex_chat_state (ex_message_env\<lparr>find_fault := Some (Exception (lit ''db down''))\<rparr>)
          (lit ''alice'') (lit ''s1'') (lit ''hi'') NoFile NoFile)
     = Inl (HTTPException 500 (lit ''Internal server error: db down'')) \<and>
   chat_reply (ex_message_env\<lparr>chat_reply := Inl (lit ''timeout'')\<rparr>) = Inl (lit ''timeout'') \<and>
   send_message ex_chat_state (ex_message_env\<lparr>chat_reply := Inl (lit ''timeout'')\<rparr>)
          (lit ''alice'') (lit ''s1'') (lit ''hi'') NoFile NoFile
     = (Inl (HTTPException 500 (lit ''OpenAI API error: OpenAI API Error: timeout'')),
        ex_chat_state\<lparr>service := ex_service\<lparr>async_initialized := True\<rparr>,
                       calls := [FindOne, ChatCompletion]\<rparr>) \<and>
   update_fault (ex_message_env\<lparr>update_fault := Some (Exception (lit ''db down''))\<rparr>)
     = Some (Exception (lit ''db down'')) \<and>
   send_message ex_chat_state (ex_message_env\<lparr>update_fault := Some (Exception (lit ''db down''))\<rparr>)
          (lit ''alice'') (lit ''s1'') (lit ''hi'') NoFile NoFile
     = (Inl (HTTPException 500 (lit ''Internal server error: db down'')),
        ex_chat_state\<lparr>service := ex_service\<lparr>async_initialized := True\<rparr>,
                       calls := [FindOne, ChatCompletion, UpdateOne]\<rparr>) \<and>
   insert_fault (ex_create_env\<lparr>insert_fault := Some (Exception (lit ''db down''))\<rparr>)
     = Some (Exception (lit ''db down'')) \<and>
   fst (create_session ex_chat_state
          (ex_create_env\<lparr>insert_fault := Some (Exception (lit ''db down''))\<rparr>) (lit ''alice''))
     = Inl (HTTPException 500 (lit ''Failed to create session: db down'')) \<and>
   session_fault (ex_service_env\<lparr>session_fault := Some (Exception (lit ''db down''))\<rparr>)
     = Some (Exception (lit ''db down'')) \<and>
   fst (send_message_route ex_group_state
          (ex_service_env\<lparr>session_fault := Some (Exception (lit ''db down''))\<rparr>)
          (lit ''alice'') (lit ''s1'') (lit ''g1'') (lit ''hi''))
     = Inl (HTTPException 500 (lit ''db down'')) \<and>
   group_fault (ex_service_env\<lparr>group_fault := Some (Exception (lit ''db down''))\<rparr>)
     = Some (Exception (lit ''db down'')) \<and>
   send_message_route ex_group_state
          (ex_service_env\<lparr>group_fault := Some (Exception (lit ''db down''))\<rparr>)
          (lit ''alice'') (lit ''s1'') (lit ''g1'') (lit ''hi'')
     = (Inl (HTTPException 500 (lit ''db down'')), ex_group_state\<lparr>calls := [FindOne, FindOne]\<rparr>) \<and>
   first_write_fault (ex_service_env\<lparr>first_write_fault := Some (Exception (lit ''db down''))\<rparr>)
     = Some (Exception (lit ''db down'')) \<and>
   send_message_route ex_group_state
          (ex_service_env\<lparr>first_write_fault := Some (Exception (lit ''db down''))\<rparr>)
          (lit ''alice'') (lit ''s1'') (lit ''g1'') (lit ''hi'')
     = (Inl (HTTPException 500 (lit ''db down'')),
        ex_group_state\<lparr>calls := [FindOne, FindOne, UpdateOne]\<rparr>) \<and>
   transcription_reply (ex_message_env\<lparr>transcription_reply := Inl (lit ''no speech'')\<rparr>)
     = Inl (lit ''no speech'') \<and>
   fst (send_message ex_chat_state (ex_message_env\<lparr>transcription_reply := Inl (lit ''no speech'')\<rparr>)
          (lit ''alice'') (lit ''s1'') (lit ''hi'') (Upload \<lparr>audio_read_fault = None\<rparr>) NoFile)
     = Inl (HTTPException 400
              (lit ''Audio transcription failed: Audio Transcription Error: no speech''))"
  using upstream_failure_surfaces [of
          "ex_message_env\<lparr>find_fault := Some (Exception (lit ''db down''))\<rparr>" ex_chat_state
          "lit ''alice''" "lit ''s1''" "lit ''hi''" NoFile NoFile ex_session "lit ''hi''"
          "logged FindOne ex_chat_state" None "lit ''hi''"
          "(logged FindOne ex_chat_state)\<lparr>service := ex_service\<lparr>async_initialized := True\<rparr>\<rparr>"
          "ex_create_env\<lparr>insert_fault := Some (Exception (lit ''db down''))\<rparr>"
          "ex_service_env\<lparr>session_fault := Some (Exception (lit ''db down''))\<rparr>"
          ex_group_state "lit ''g1''"]
        upstream_failure_surfaces [of
          "ex_message_env\<lparr>chat_reply := Inl (lit ''timeout'')\<rparr>" ex_chat_state
          "lit ''alice''" "lit ''s1''" "lit ''hi''" NoFile NoFile ex_session "lit ''hi''"
          "logged FindOne ex_chat_state" None "lit ''hi''"
          "(logged FindOne ex_chat_state)\<lparr>service := ex_service\<lparr>async_initialized := True\<rparr>\<rparr>"
          ex_create_env]
        upstream_failure_surfaces [of
          "ex_message_env\<lparr>update_fault := Some (Exception (lit ''db down''))\<rparr>" ex_chat_state
          "lit ''alice''" "lit ''s1''" "lit ''hi''" NoFile NoFile ex_session "lit ''hi''"
          "logged FindOne ex_chat_state" None "lit ''hi''"
          "(logged FindOne ex_chat_state)\<lparr>service := ex_service\<lparr>async_initialized := True\<rparr>\<rparr>"
          ex_create_env]
        upstream_failure_surfaces [of
          "ex_message_env\<lparr>transcription_reply := Inl (lit ''no speech'')\<rparr>" ex_chat_state
          "lit ''alice''" "lit ''s1''" "lit ''hi''" "Upload \<lparr>audio_read_fault = None\<rparr>" NoFile
          ex_session]
        upstream_failure_surfaces [of ex_message_env ex_chat_state
          "lit ''alice''" "lit ''s1''" "lit ''hi''" NoFile NoFile ex_session "lit ''hi''"
          "logged FindOne ex_chat_state" None "lit ''hi''"
          "(logged FindOne ex_chat_state)\<lparr>service := ex_service\<lparr>async_initialized := True\<rparr>\<rparr>"
          ex_create_env
          "ex_service_env\<lparr>group_fault := Some (Exception (lit ''db down''))\<rparr>"
          ex_group_state "lit ''g1''"]
        upstream_failure_surfaces [of ex_message_env ex_chat_state
          "lit ''alice''" "lit ''s1''" "lit ''hi''" NoFile NoFile ex_session "lit ''hi''"
          "logged FindOne ex_chat_state" None "lit ''hi''"
          "(logged FindOne ex_chat_state)\<lparr>service := ex_service\<lparr>async_initialized := True\<rparr>\<rparr>"
          ex_create_env
          "ex_service_env\<lparr>first_write_fault := Some (Exception (lit ''db down''))\<rparr>"
          ex_group_state "lit ''g1''"]
  by (simp add: ex_defs run_defs lit_def create_session_def ex_service_env_def ex_group_state_def
        ex_group_def send_message_route_def route_def group_send_message_def validate_session_def
        find_group_def update_group_def transcribe_audio_def)

text \<open>
  In the group-chat service the failure of the reply generation is swallowed: the fixed
  apology is stored and returned as a success, also through the route.
\<close>

theorem group_send_fallback_counterexample:
  "fst (group_send_message ex_group_state (ex_service_env\<lparr>ai_reply := Inl (lit ''timeout'')\<rparr>)
          (lit ''g1'') (lit ''s1'') (lit ''alice'') (lit ''hi''))
     = Inr \<lparr>message_id = lit ''u2'', gm_user_id = lit ''AI'',
            gm_content = lit ''I'm having trouble connecting right now. Please try again later.'',
            gm_timestamp = 3, is_ai = True\<rparr> \<and>
   fst (send_message_route ex_group_state (ex_service_env\<lparr>ai_reply := Inl (lit ''timeout'')\<rparr>)
          (lit ''alice'') (lit ''s1'') (lit ''g1'') (lit ''hi''))
     = Inr \<lparr>message_id = lit ''u2'', gm_user_id = lit ''AI'',
            gm_content = lit ''I'm having trouble connecting right now. Please try again later.'',
            gm_timestamp = 3, is_ai = True\<rparr>"
  by (simp add: ex_service_env_def ex_group_state_def ex_group_def ex_service_def find_one_def
        group_send_message_def validate_session_def find_group_def update_group_def
        chat_completion_def ensure_async_initialized_def send_message_route_def route_def Let_def
        lit_def)

subsection \<open>Histories are append-only\<close>

text \<open>
  A request served alone, with no other request between its read and its write, leaves
  each stored entity with its history extended: the chat collection after creating a
  session, sending a message or fetching the history has every document it had, at its
  place, with the messages it had as a prefix of the messages it has. Deleting removes
  one document at most, the first that matches the filter, and leaves the others as they
  were. The same holds for temporary sessions (sending a message; creating a session
  under an identifier not in use), for groups (creating, joining, sending, fetching,
  deleting) and for global-language sessions (chat interaction, adding an interaction,
  fetching, deleting). A prefix is an equality of the entries: role, content and
  timestamp.
\<close>

lemma snd_delete_one:
  "snd (delete_one flt coll) = (case find_one flt coll of None \<Rightarrow> coll | Some d \<Rightarrow> remove1 d coll)"
proof (induction coll)
  case Nil
  then show ?case by (simp add: find_one_def)
next
  case (Cons a coll)
  show ?case
  proof (cases "flt a")
    case True
    then show ?thesis by (simp add: find_one_def)
  next
    case False
    have "d \<noteq> a" if "find_one flt coll = Some d" for d
      using find_one_prop [OF that] False by auto
    then show ?thesis
      using Cons False
      by (auto simp: find_one_def split: prod.splits option.splits)
  qed
qed

lemma delete_session_removes_one:
  "store (snd (delete_session st fault sid uid))
     = (case fault of
          Some e \<Rightarrow> store st
        | None \<Rightarrow>
            (case find_one (session_filter sid uid) (store st) of
               None \<Rightarrow> store st
             | Some d \<Rightarrow> remove1 d (store st)))"
  using snd_delete_one [of "session_filter sid uid" "store st"]
  by (simp add: delete_session_def case_prod_unfold Let_def split: option.splits)

lemma gl_delete_session_removes_one:
  "store (snd (gl_delete_session st fault sid))
     = (case fault of
          Some e \<Rightarrow> store st
        | None \<Rightarrow>
            (case find_one (\<lambda>d. gl_session_id d = sid) (store st) of
               None \<Rightarrow> store st
             | Some d \<Rightarrow> remove1 d (store st)))"
  using snd_delete_one [of "\<lambda>d. gl_session_id d = sid" "store st"]
  by (simp add: gl_delete_session_def case_prod_unfold Let_def split: option.splits)

lemma delete_group_removes_one:
  "groups (store (snd (delete_group st f1 f2 gid uid))) = groups (store st) \<or>
   (\<exists>g. find_one (\<lambda>g. group_id g = gid) (groups (store st)) = Some g \<and> creator_id g = uid \<and>
        groups (store (snd (delete_group st f1 f2 gid uid))) = remove1 g (groups (store st)))"
  using snd_delete_one [of "\<lambda>g. group_id g = gid" "groups (store st)"]
  by (auto simp: delete_group_def case_prod_unfold Let_def find_group_def
           split: option.splits sum.splits)

lemma handlers_extend_histories:
  "grown session_extends (store st) (store (snd (create_session st cenv uid))) \<and>
   grown session_extends (store st) (store (snd (send_message st env uid sid message audio img))) \<and>
   store (snd (get_session_history st fault sid uid)) = store st \<and>
   store (snd (delete_session st fault sid uid))
     = (case fault of
          Some e \<Rightarrow> store st
        | None \<Rightarrow>
            (case find_one (session_filter sid uid) (store st) of
               None \<Rightarrow> store st
             | Some d \<Rightarrow> remove1 d (store st))) \<and>
   (\<forall>k d. store tst k = Some d \<longrightarrow>
      (\<exists>d'. store (snd (send_temp_message tst env uid sid message audio img)) k = Some d' \<and>
            session_extends d d')) \<and>
   (store tst (uuid4 cenv) = None \<longrightarrow>
      (\<forall>k d. store tst k = Some d \<longrightarrow>
         store (snd (create_temp_session tst cenv uid)) k = Some d)) \<and>
   grown group_extends (groups (store gst))
     (groups (store (snd (create_group gst genv uid sid group_name group_type)))) \<and>
   grown group_extends (groups (store gst)) (groups (store (snd (join_group gst genv uid sid gid)))) \<and>
   grown group_extends (groups (store gst))
     (groups (store (snd (group_send_message gst genv gid sid uid message)))) \<and>
   store (snd (get_group_history gst fault gid)) = store gst \<and>
   (groups (store (snd (delete_group gst fault fault' gid uid))) = groups (store gst) \<or>
    (\<exists>g. find_one (\<lambda>g. group_id g = gid) (groups (store gst)) = Some g \<and> creator_id g = uid \<and>
         groups (store (snd (delete_group gst fault fault' gid uid)))
           = remove1 g (groups (store gst)))) \<and>
   grown global_extends (store lst)
     (store (snd (process_chat_interaction lst genv sid uid message language))) \<and>
   grown global_extends (store lst) (store (snd (add_interaction lst fault sid interaction))) \<and>
   store (snd (get_history lst fault sid)) = store lst \<and>
   store (snd (gl_delete_session lst fault sid))
     = (case fault of
          Some e \<Rightarrow> store lst
        | None \<Rightarrow>
            (case find_one (\<lambda>d. gl_session_id d = sid) (store lst) of
               None \<Rightarrow> store lst
             | Some d \<Rightarrow> remove1 d (store lst)))"
proof -
  have temp: "\<forall>k d. store tst k = Some d \<longrightarrow>
      (\<exists>d'. store (snd (send_temp_message tst env uid sid message audio img)) k = Some d' \<and>
            session_extends d d')"
    using send_temp_message_extends [of tst _ _ env uid sid message audio img] by blast
  have create: "store tst (uuid4 cenv) = None \<longrightarrow>
      (\<forall>k d. store tst k = Some d \<longrightarrow>
         store (snd (create_temp_session tst cenv uid)) k = Some d)"
    by (auto simp: create_temp_session_def Let_def)
  show ?thesis
    by (intro conjI temp create create_session_grown send_message_grown get_session_history_same
          delete_session_removes_one create_group_grown join_group_grown group_send_message_grown
          get_group_history_same delete_group_removes_one process_chat_interaction_grown
          add_interaction_grown get_history_same gl_delete_session_removes_one)
qed

text \<open>
  With no request in between, \<open>send_message_overlapped\<close> is \<open>send_message\<close>.
\<close>

lemma send_message_overlapped_alone:
  "send_message_overlapped st env uid sid message audio img (\<lambda>st. st)
     = send_message st env uid sid message audio img"
  by (simp add: send_message_overlapped_def send_message_def send_message_body_def)

text \<open>
  What the write of the chat route stores does not depend on what is stored when it
  runs: the document written is the copy read at the lookup with the two new messages,
  whatever other requests stored for the session in between, and whether or not the
  session is still there.
\<close>

lemma send_message_prepare_document:
  assumes "send_message_prepare st env uid sid message audio img = (Inr (doc, reply_text), st1)"
  shows "\<exists>sess um. find_one (session_filter sid uid) (store st) = Some sess \<and>
           session_filter sid uid doc \<and>
           messages doc = messages sess @
             [um, \<lparr>role = assistant, content = Str reply_text, timestamp = now_assistant env\<rparr>]"
proof -
  have flt: "session_filter sid uid sess"
    if "find_one (session_filter sid uid) (store st) = Some sess" for sess
    using find_one_prop [OF that] .
  show ?thesis
    using assms flt
    by (auto simp: send_message_prepare_def Let_def session_filter_def
             split: option.splits sum.splits prod.splits if_splits)
qed

lemma find_one_update_one_upsert:
  "flt doc \<Longrightarrow> find_one flt (update_one_upsert flt (\<lambda>_. doc) doc coll) = Some doc"
proof (induction coll)
  case Nil
  then show ?case by (simp add: update_one_upsert_def find_one_def insert_one_def)
next
  case (Cons a coll)
  then show ?case
    by (auto simp: update_one_upsert_def find_one_def insert_one_def split: option.splits)
qed

lemma send_message_overlapped_stores_prepared:
  assumes "send_message_prepare st env uid sid message audio img = (Inr (doc, reply_text), st1)"
    and "update_fault env = None"
  shows "find_one (session_filter sid uid)
           (store (snd (send_message_overlapped st env uid sid message audio img other)))
         = Some doc"
proof -
  have "session_filter sid uid doc"
    using send_message_prepare_document [OF assms(1)] by blast
  then show ?thesis
    using assms
    by (simp add: send_message_overlapped_def send_message_handler_def send_message_write_def
          Let_def find_one_update_one_upsert)
qed

text \<open>
  C7. Two requests to the session \<open>s1\<close> of \<open>alice\<close>, which has no message yet. The first
  reads the session and awaits the reply to its message \<open>first\<close>; meanwhile the second,
  with the message \<open>second\<close>, is served whole, and its two messages are stored. The write
  of the first then replaces the stored document by its own copy: both requests were
  answered with a success, and the stored list, which held the two messages of the
  second request, holds the two messages of the first and nothing else. The list before
  that write is not a prefix of the list after it.
\<close>

theorem overlapping_send_message_erases:
  "fst (send_message_prepare ex_chat_state ex_message_env (lit ''alice'') (lit ''s1'')
          (lit ''first'') NoFile NoFile)
     = Inr (ex_session\<lparr>title := lit ''first'',
              messages := [\<lparr>role = user, content = Str (lit ''first''), timestamp = 2\<rparr>,
                           \<lparr>role = assistant, content = Str (lit ''Hello''), timestamp = 3\<rparr>],
              updated_at := 4\<rparr>, lit ''Hello'') \<and>
   fst (send_message
          (snd (send_message_prepare ex_chat_state ex_message_env (lit ''alice'') (lit ''s1'')
                  (lit ''first'') NoFile NoFile))
          ex_second_env (lit ''alice'') (lit ''s1'') (lit ''second'') NoFile NoFile)
     = Inr (ChatResponse (lit ''s1'') (lit ''second'') (lit ''Hi again'') 6) \<and>
   map_option messages (find_one (session_filter (lit ''s1'') (lit ''alice''))
     (store (ex_second_request
        (snd (send_message_prepare ex_chat_state ex_message_env (lit ''alice'') (lit ''s1'')
                (lit ''first'') NoFile NoFile)))))
     = Some [\<lparr>role = user, content = Str (lit ''second''), timestamp = 5\<rparr>,
             \<lparr>role = assistant, content = Str (lit ''Hi again''), timestamp = 6\<rparr>] \<and>
   fst (send_message_overlapped ex_chat_state ex_message_env (lit ''alice'') (lit ''s1'')
          (lit ''first'') NoFile NoFile ex_second_request)
     = Inr (ChatResponse (lit ''s1'') (lit ''first'') (lit ''Hello'') 3) \<and>
   map_option messages (find_one (session_filter (lit ''s1'') (lit ''alice''))
     (store (snd (send_message_overlapped ex_chat_state ex_message_env (lit ''alice'') (lit ''s1'')
                    (lit ''first'') NoFile NoFile ex_second_request))))
     = Some [\<lparr>role = user, content = Str (lit ''first''), timestamp = 2\<rparr>,
             \<lparr>role = assistant, content = Str (lit ''Hello''), timestamp = 3\<rparr>] \<and>
   \<not> prefix [\<lparr>role = user, content = Str (lit ''second''), timestamp = 5\<rparr>,
             \<lparr>role = assistant, content = Str (lit ''Hi again''), timestamp = 6\<rparr>]
            [\<lparr>role = user, content = Str (lit ''first''), timestamp = 2\<rparr>,
             \<lparr>role = assistant, content = Str (lit ''Hello''), timestamp = 3\<rparr>]"
  by (simp add: send_message_overlapped_def ex_second_request_def ex_second_env_def
        ex_defs run_defs lit_def)

text \<open>
  The sibling path: the group-chat service appends with \<open>$push\<close>. Whatever other requests
  did to the group between the lookup of a send and its writes, the messages stored when
  a write runs stay, and the new message comes after them.
\<close>

lemma update_group_pushes:
  assumes "find_one (\<lambda>g. group_id g = gid) (groups (store st)) = Some g"
  shows "find_one (\<lambda>g. group_id g = gid)
           (groups (store (snd (update_group st None gid
              (\<lambda>g. g\<lparr>group_messages := group_messages g @ [m]\<rparr>)))))
         = Some (g\<lparr>group_messages := group_messages g @ [m]\<rparr>)"
  using find_one_update_one [OF assms, of "\<lambda>g. g\<lparr>group_messages := group_messages g @ [m]\<rparr>"]
    find_one_prop [OF assms]
  by (simp add: update_group_ok)

text \<open>
  The same write with \<open>upsert=True\<close> brings back a session deleted in between: the first
  request reads the session, the session is deleted while it awaits, and its write
  inserts the document again.
\<close>

lemma deleted_session_comes_back:
  "store (ex_delete_request
        (snd (send_message_prepare ex_chat_state ex_message_env (lit ''alice'') (lit ''s1'')
                (lit ''first'') NoFile NoFile))) = [] \<and>
   store (snd (send_message_overlapped ex_chat_state ex_message_env (lit ''alice'') (lit ''s1'')
                 (lit ''first'') NoFile NoFile ex_delete_request))
     = [ex_session\<lparr>title := lit ''first'',
          messages := [\<lparr>role = user, content = Str (lit ''first''), timestamp = 2\<rparr>,
                       \<lparr>role = assistant, content = Str (lit ''Hello''), timestamp = 3\<rparr>],
          updated_at := 4\<rparr>]"
  by (simp add: send_message_overlapped_def ex_delete_request_def delete_session_def
        insert_one_def ex_defs run_defs lit_def)

end
